theory Spec2Isabelle
  imports Main
begin

section \<open>HTTP data model\<close>

text \<open>
  A header set is the JavaScript object \<^verbatim>\<open>req.headers\<close>: lower-case names to string
  values; a name that is missing (or was set to \<^verbatim>\<open>undefined\<close>) is \<open>None\<close>.
\<close>

type_synonym headers = "string \<rightharpoonup> string"

text \<open>JavaScript truthiness of a string-or-undefined value: undefined and the empty string are falsy.\<close>

definition truthy :: "string option \<Rightarrow> bool" where
  "truthy v = (case v of None \<Rightarrow> False | Some s \<Rightarrow> s \<noteq> [])"

text \<open>
  The human-readable texts of the error envelopes are constants of the source (in Russian);
  they are kept apart by name.
\<close>

datatype message =
    Token_required_msg        \<comment> \<open>"Trebuetsya token avtorizatsii"\<close>
  | Invalid_or_expired_msg    \<comment> \<open>"Nevernyi ili prosrochennyi token"\<close>
  | Access_denied_msg         \<comment> \<open>"Dostup zapreshchen"\<close>
  | Insufficient_rights_msg   \<comment> \<open>"Nedostatochno prav"\<close>
  | User_not_found_msg        \<comment> \<open>"Polzovatel ne naiden"\<close>
  | Route_not_found_msg       \<comment> \<open>"Marshrut ne naiden"\<close>

text \<open>\<^verbatim>\<open>res.status(s).json({ success: false, error: { code, message } })\<close>\<close>

record error_response =
  status :: nat
  code :: string
  message :: message

section \<open>Token codec interface (the jsonwebtoken library)\<close>

text \<open>
  An identity claim set \<^verbatim>\<open>{ id, email, roles }\<close>. The payload that \<^verbatim>\<open>/login\<close> signs
  carries the roles as an array of strings; a payload without a \<^verbatim>\<open>roles\<close> field has
  \<open>roles = None\<close>. (The payload's \<^verbatim>\<open>name\<close>, \<^verbatim>\<open>iat\<close> and \<^verbatim>\<open>exp\<close> are read by none of the
  code below.)
\<close>

record 'r claims =
  id' :: string
  email :: string
  roles :: 'r

type_synonym token_payload = "string list option claims"

text \<open>The error classes \<^verbatim>\<open>jwt.verify\<close> reports.\<close>

datatype jwt_error = TokenExpiredError | JsonWebTokenError | NotBeforeError

text \<open>\<^verbatim>\<open>jwt.verify(token, secret)\<close> is a parameter of the model: a function from the token
  text to an error or the decoded payload.\<close>

type_synonym verifier = "string \<Rightarrow> jwt_error + token_payload"

section \<open>Strings\<close>

definition startsWith :: "string \<Rightarrow> string \<Rightarrow> bool" where
  "startsWith s r = (take (length r) s = r)"

text \<open>\<^verbatim>\<open>s.split(' ')\<close>: the pieces between single spaces; the empty string gives one empty piece.\<close>

fun split_space :: "string \<Rightarrow> string list" where
  "split_space [] = [[]]"
| "split_space (c # cs) =
     (if c = CHR '' '' then [] # split_space cs
      else (case split_space cs of
              [] \<Rightarrow> [[c]]
            | w # ws \<Rightarrow> (c # w) # ws))"

text \<open>\<^verbatim>\<open>xs[i]\<close> of JavaScript: undefined out of range.\<close>

definition js_index :: "'a list \<Rightarrow> nat \<Rightarrow> 'a option" where
  "js_index xs i = (if i < length xs then Some (xs ! i) else None)"

text \<open>\<^verbatim>\<open>const token = authHeader && authHeader.split(' ')[1]\<close>\<close>

definition token_of :: "headers \<Rightarrow> string option" where
  "token_of h =
     (let authHeader = h ''authorization''
      in if truthy authHeader then js_index (split_space (the authHeader)) 1 else authHeader)"

section \<open>JSON.stringify of a role list\<close>

definition dquote :: char where "dquote = CHR 0x22"
definition backslash :: char where "backslash = CHR 0x5C"

definition hex_digit :: "nat \<Rightarrow> char" where
  "hex_digit n = ''0123456789abcdef'' ! (n mod 16)"

text \<open>The JSON quoting of one character of a string, as \<^verbatim>\<open>JSON.stringify\<close> does it on
  characters below U+0100.\<close>

definition quote_char :: "char \<Rightarrow> string" where
  "quote_char c =
     (if c = dquote then [backslash, dquote]
      else if c = backslash then [backslash, backslash]
      else if c = CHR 0x08 then [backslash, CHR ''b'']
      else if c = CHR 0x0C then [backslash, CHR ''f'']
      else if c = CHR 0x0A then [backslash, CHR ''n'']
      else if c = CHR 0x0D then [backslash, CHR ''r'']
      else if c = CHR 0x09 then [backslash, CHR ''t'']
      else if of_char c < (32::nat)
        then [backslash, CHR ''u'', CHR ''0'', CHR ''0'',
              hex_digit (of_char c div 16), hex_digit (of_char c)]
      else [c])"

definition quote_string :: "string \<Rightarrow> string" where
  "quote_string s = dquote # concat (map quote_char s) @ [dquote]"

fun join_comma :: "string list \<Rightarrow> string" where
  "join_comma [] = []"
| "join_comma [x] = x"
| "join_comma (x # y # ys) = x @ CHR '','' # join_comma (y # ys)"

text \<open>\<^verbatim>\<open>JSON.stringify(user.roles)\<close> for an array of strings.\<close>

definition JSON_stringify :: "string list \<Rightarrow> string" where
  "JSON_stringify rs = CHR ''['' # join_comma (map quote_string rs) @ '']''"

section \<open>JSON.parse\<close>

text \<open>
  A parsed JSON value. Strings are sequences of UTF-16 code units, since an escape
  \<^verbatim>\<open>\uXXXX\<close> can denote any of them; a number keeps its literal; an object keeps its members
  in the order of the text, repeated keys included.
\<close>

datatype json =
    JNull
  | JBool bool
  | JNum string
  | JStr "nat list"
  | JArr "json list"
  | JObj "(nat list \<times> json) list"

datatype token =
    T_lbrack | T_rbrack | T_lbrace | T_rbrace | T_comma | T_colon
  | T_scalar json

text \<open>The states of the number grammar
  \<^verbatim>\<open>-? (0 | [1-9][0-9]*) (. [0-9]+)? ([eE] [+-]? [0-9]+)?\<close>.\<close>

datatype numstate = N_minus | N_zero | N_int | N_dot | N_frac | N_e | N_esign | N_exp

datatype lexmode =
    L_top
  | L_str "nat list"
  | L_esc "nat list"
  | L_hex "nat list" nat nat
  | L_num numstate string
  | L_kw string json

definition is_digit :: "char \<Rightarrow> bool" where
  "is_digit c = (48 \<le> (of_char c :: nat) \<and> (of_char c :: nat) \<le> 57)"

definition is_ws :: "char \<Rightarrow> bool" where
  "is_ws c = (c = CHR '' '' \<or> c = CHR 0x09 \<or> c = CHR 0x0A \<or> c = CHR 0x0D)"

definition hex_val :: "char \<Rightarrow> nat option" where
  "hex_val c =
     (let n = of_char c :: nat
      in if 48 \<le> n \<and> n \<le> 57 then Some (n - 48)
         else if 97 \<le> n \<and> n \<le> 102 then Some (n - 87)
         else if 65 \<le> n \<and> n \<le> 70 then Some (n - 55)
         else None)"

definition num_step :: "numstate \<Rightarrow> char \<Rightarrow> numstate option" where
  "num_step st c =
     (case st of
        N_minus \<Rightarrow> (if c = CHR ''0'' then Some N_zero else if is_digit c then Some N_int else None)
      | N_zero \<Rightarrow> (if c = CHR ''.'' then Some N_dot
                   else if c = CHR ''e'' \<or> c = CHR ''E'' then Some N_e else None)
      | N_int \<Rightarrow> (if is_digit c then Some N_int
                  else if c = CHR ''.'' then Some N_dot
                  else if c = CHR ''e'' \<or> c = CHR ''E'' then Some N_e else None)
      | N_dot \<Rightarrow> (if is_digit c then Some N_frac else None)
      | N_frac \<Rightarrow> (if is_digit c then Some N_frac
                   else if c = CHR ''e'' \<or> c = CHR ''E'' then Some N_e else None)
      | N_e \<Rightarrow> (if c = CHR ''+'' \<or> c = CHR ''-'' then Some N_esign
                else if is_digit c then Some N_exp else None)
      | N_esign \<Rightarrow> (if is_digit c then Some N_exp else None)
      | N_exp \<Rightarrow> (if is_digit c then Some N_exp else None))"

definition num_done :: "numstate \<Rightarrow> bool" where
  "num_done st = (st = N_zero \<or> st = N_int \<or> st = N_frac \<or> st = N_exp)"

text \<open>What a character does between two tokens: the tokens it completes and the next mode.\<close>

definition lex_top :: "char \<Rightarrow> (token list \<times> lexmode) option" where
  "lex_top c =
     (if is_ws c then Some ([], L_top)
      else if c = CHR ''['' then Some ([T_lbrack], L_top)
      else if c = CHR '']'' then Some ([T_rbrack], L_top)
      else if c = CHR ''{'' then Some ([T_lbrace], L_top)
      else if c = CHR ''}'' then Some ([T_rbrace], L_top)
      else if c = CHR '','' then Some ([T_comma], L_top)
      else if c = CHR '':'' then Some ([T_colon], L_top)
      else if c = dquote then Some ([], L_str [])
      else if c = CHR ''-'' then Some ([], L_num N_minus [c])
      else if c = CHR ''0'' then Some ([], L_num N_zero [c])
      else if is_digit c then Some ([], L_num N_int [c])
      else if c = CHR ''n'' then Some ([], L_kw ''ull'' JNull)
      else if c = CHR ''t'' then Some ([], L_kw ''rue'' (JBool True))
      else if c = CHR ''f'' then Some ([], L_kw ''alse'' (JBool False))
      else None)"

text \<open>The character after a backslash in a string literal.\<close>

definition unescape :: "char \<Rightarrow> nat option" where
  "unescape c =
     (if c = dquote then Some 0x22
      else if c = backslash then Some 0x5C
      else if c = CHR ''/'' then Some 0x2F
      else if c = CHR ''b'' then Some 0x08
      else if c = CHR ''f'' then Some 0x0C
      else if c = CHR ''n'' then Some 0x0A
      else if c = CHR ''r'' then Some 0x0D
      else if c = CHR ''t'' then Some 0x09
      else None)"

definition lex_char :: "lexmode \<Rightarrow> char \<Rightarrow> (token list \<times> lexmode) option" where
  "lex_char m c =
     (case m of
        L_top \<Rightarrow> lex_top c
      | L_str acc \<Rightarrow>
          (if c = dquote then Some ([T_scalar (JStr (rev acc))], L_top)
           else if c = backslash then Some ([], L_esc acc)
           else if (of_char c :: nat) < 32 then None
           else Some ([], L_str (of_char c # acc)))
      | L_esc acc \<Rightarrow>
          (if c = CHR ''u'' then Some ([], L_hex acc 0 0)
           else (case unescape c of
                   None \<Rightarrow> None
                 | Some u \<Rightarrow> Some ([], L_str (u # acc))))
      | L_hex acc k v \<Rightarrow>
          (case hex_val c of
             None \<Rightarrow> None
           | Some d \<Rightarrow>
               (if k = 3 then Some ([], L_str ((16 * v + d) # acc))
                else Some ([], L_hex acc (Suc k) (16 * v + d))))
      | L_num st acc \<Rightarrow>
          (case num_step st c of
             Some st' \<Rightarrow> Some ([], L_num st' (c # acc))
           | None \<Rightarrow>
               (if num_done st
                then (case lex_top c of
                        None \<Rightarrow> None
                      | Some (ts, m') \<Rightarrow> Some (T_scalar (JNum (rev acc)) # ts, m'))
                else None))
      | L_kw rest v \<Rightarrow>
          (case rest of
             [] \<Rightarrow> (case lex_top c of
                      None \<Rightarrow> None
                    | Some (ts, m') \<Rightarrow> Some (T_scalar v # ts, m'))
           | r # rs \<Rightarrow> (if c = r then Some ([], L_kw rs v) else None)))"

text \<open>What the end of the text does in each mode.\<close>

definition lex_end :: "lexmode \<Rightarrow> token list option" where
  "lex_end m =
     (case m of
        L_top \<Rightarrow> Some []
      | L_num st acc \<Rightarrow> (if num_done st then Some [T_scalar (JNum (rev acc))] else None)
      | L_kw rest v \<Rightarrow> (if rest = [] then Some [T_scalar v] else None)
      | _ \<Rightarrow> None)"

fun lex :: "lexmode \<Rightarrow> string \<Rightarrow> token list option" where
  "lex m [] = lex_end m"
| "lex m (c # cs) =
     (case lex_char m c of
        None \<Rightarrow> None
      | Some (ts, m') \<Rightarrow> map_option ((@) ts) (lex m' cs))"

text \<open>
  The parser is a pushdown automaton over the tokens. A frame is an array or an object under
  construction (members in reverse), or an object that has read a key and its colon.
\<close>

datatype frame =
    F_arr "json list"
  | F_obj "(nat list \<times> json) list"
  | F_key "(nat list \<times> json) list" "nat list"

datatype pstate =
    S_value | S_arr0 | S_obj0 | S_key | S_colon "nat list" | S_next | S_done json

text \<open>A value is complete: it is the whole text, or goes into the innermost frame.\<close>

definition complete :: "json \<Rightarrow> frame list \<Rightarrow> (pstate \<times> frame list) option" where
  "complete v st =
     (case st of
        [] \<Rightarrow> Some (S_done v, [])
      | F_arr acc # st' \<Rightarrow> Some (S_next, F_arr (v # acc) # st')
      | F_key acc k # st' \<Rightarrow> Some (S_next, F_obj ((k, v) # acc) # st')
      | F_obj acc # st' \<Rightarrow> None)"

definition begin_value :: "frame list \<Rightarrow> token \<Rightarrow> (pstate \<times> frame list) option" where
  "begin_value st t =
     (case t of
        T_scalar v \<Rightarrow> complete v st
      | T_lbrack \<Rightarrow> Some (S_arr0, F_arr [] # st)
      | T_lbrace \<Rightarrow> Some (S_obj0, F_obj [] # st)
      | _ \<Rightarrow> None)"

definition begin_key :: "frame list \<Rightarrow> token \<Rightarrow> (pstate \<times> frame list) option" where
  "begin_key st t =
     (case t of
        T_scalar (JStr k) \<Rightarrow> Some (S_colon k, st)
      | _ \<Rightarrow> None)"

definition parse_step :: "pstate \<Rightarrow> frame list \<Rightarrow> token \<Rightarrow> (pstate \<times> frame list) option" where
  "parse_step s st t =
     (case s of
        S_value \<Rightarrow> begin_value st t
      | S_arr0 \<Rightarrow>
          (case (t, st) of
             (T_rbrack, F_arr [] # st') \<Rightarrow> complete (JArr []) st'
           | _ \<Rightarrow> begin_value st t)
      | S_obj0 \<Rightarrow>
          (case (t, st) of
             (T_rbrace, F_obj [] # st') \<Rightarrow> complete (JObj []) st'
           | _ \<Rightarrow> begin_key st t)
      | S_key \<Rightarrow> begin_key st t
      | S_colon k \<Rightarrow>
          (case (t, st) of
             (T_colon, F_obj acc # st') \<Rightarrow> Some (S_value, F_key acc k # st')
           | _ \<Rightarrow> None)
      | S_next \<Rightarrow>
          (case (t, st) of
             (T_comma, F_arr acc # st') \<Rightarrow> Some (S_value, st)
           | (T_comma, F_obj acc # st') \<Rightarrow> Some (S_key, st)
           | (T_rbrack, F_arr acc # st') \<Rightarrow> complete (JArr (rev acc)) st'
           | (T_rbrace, F_obj acc # st') \<Rightarrow> complete (JObj (rev acc)) st'
           | _ \<Rightarrow> None)
      | S_done v \<Rightarrow> None)"

fun parse_run :: "pstate \<Rightarrow> frame list \<Rightarrow> token list \<Rightarrow> json option" where
  "parse_run s st [] = (case s of S_done v \<Rightarrow> Some v | _ \<Rightarrow> None)"
| "parse_run s st (t # ts) =
     (case parse_step s st t of
        None \<Rightarrow> None
      | Some (s', st') \<Rightarrow> parse_run s' st' ts)"

text \<open>\<^verbatim>\<open>JSON.parse(text)\<close>; \<open>None\<close> is the SyntaxError it throws.\<close>

definition JSON_parse :: "string \<Rightarrow> json option" where
  "JSON_parse s = (case lex L_top s of None \<Rightarrow> None | Some ts \<Rightarrow> parse_run S_value [] ts)"

section \<open>Gateway: the edge authenticator (api_gateway/src/middleware/auth.js)\<close>

text \<open>
  A request as a middleware sees it: the path, the header set and \<^verbatim>\<open>req.user\<close>
  (undefined until a middleware assigns it). A middleware calls \<^verbatim>\<open>next()\<close>, sends a
  response, or throws.
\<close>

record 'u request =
  path :: string
  headers :: headers
  user :: "'u option"

datatype js_error = TypeError

datatype 'u outcome = Next "'u request" | Respond error_response | Throws js_error

definition publicRoutes :: "string list" where
  "publicRoutes =
     [''/api/v1/users/register'',
      ''/api/v1/users/login'',
      ''/health'',
      ''/'',
      ''/api-docs'',
      ''/api-docs/'',
      ''/api-docs/swagger-ui.css'',
      ''/api-docs/swagger-ui-bundle.js'',
      ''/api-docs/swagger-ui-standalone-preset.js'',
      ''/api-docs/favicon-32x32.png'']"

text \<open>\<^verbatim>\<open>publicRoutes.some(route => req.path === route || req.path.startsWith(route))\<close>\<close>

definition public_route :: "string \<Rightarrow> bool" where
  "public_route p = list_ex (\<lambda>route. p = route \<or> startsWith p route) publicRoutes"

text \<open>The three header assignments of the success branch (lines 47 to 49 of the file).\<close>

definition propagate :: "token_payload \<Rightarrow> headers \<Rightarrow> headers" where
  "propagate u h =
     h(''x-user-id'' \<mapsto> id' u,
       ''x-user-email'' \<mapsto> email u,
       ''x-user-roles'' := map_option JSON_stringify (roles u))"

definition gateway_authenticateToken ::
  "verifier \<Rightarrow> token_payload request \<Rightarrow> token_payload outcome" where
  "gateway_authenticateToken verify req =
     (if public_route (path req)
      then Next req
      else
        let token = token_of (headers req)
        in if \<not> truthy token
           then Respond \<lparr>status = 401, code = ''TOKEN_REQUIRED'', message = Token_required_msg\<rparr>
           else
             (case verify (the token) of
                Inl err \<Rightarrow>
                  Respond \<lparr>status = 403, code = ''INVALID_TOKEN'', message = Invalid_or_expired_msg\<rparr>
              | Inr u \<Rightarrow>
                  Next (req\<lparr>user := Some u, headers := propagate u (headers req)\<rparr>)))"

section \<open>Gateway: the correlation tagger (request-id middleware of the gateway's index.js)\<close>

text \<open>
  \<^verbatim>\<open>const requestId = req.headers['x-request-id'] || rTracer.id() || crypto.randomUUID()\<close>.
  The value of \<^verbatim>\<open>rTracer.id()\<close> (possibly undefined) and the string that
  \<^verbatim>\<open>randomUUID()\<close> returns are parameters. The result is the request with its header set
  updated, and the response header set after \<^verbatim>\<open>res.setHeader\<close>.
\<close>

definition js_or :: "string option \<Rightarrow> string option \<Rightarrow> string option" where
  "js_or a b = (if truthy a then a else b)"

definition request_id_middleware ::
  "string option \<Rightarrow> string \<Rightarrow> 'u request \<Rightarrow> headers \<Rightarrow> 'u request \<times> headers" where
  "request_id_middleware rTracer_id randomUUID req res =
     (let requestId = js_or (headers req ''x-request-id'') (js_or rTracer_id (Some randomUUID))
      in (req\<lparr>headers := (headers req)(''x-request-id'' := requestId)\<rparr>,
          res(''x-request-id'' := requestId)))"

section \<open>Gateway: the reverse dispatcher (proxy middleware and the mounts of index.js)\<close>

datatype service = Users | Orders

text \<open>The options object handed to \<^verbatim>\<open>createProxyMiddleware\<close>: these four keys and no other.
  \<^verbatim>\<open>onProxyReq(proxyReq, req)\<close> is modelled on the header set of the outbound request.\<close>

record 'u proxy_options =
  target :: string
  pathRewrite :: "(string \<times> string) list"
  changeOrigin :: bool
  onProxyReq :: "headers \<Rightarrow> 'u request \<Rightarrow> headers"

definition users_onProxyReq :: "headers \<Rightarrow> 'u request \<Rightarrow> headers" where
  "users_onProxyReq proxyReq req =
     (let p1 = (if truthy (headers req ''x-user-id'')
                then proxyReq(''x-user-id'' := headers req ''x-user-id'') else proxyReq);
          p2 = (if truthy (headers req ''x-user-email'')
                then p1(''x-user-email'' := headers req ''x-user-email'') else p1);
          p3 = (if truthy (headers req ''x-user-roles'')
                then p2(''x-user-roles'' := headers req ''x-user-roles'') else p2);
          p4 = (if truthy (headers req ''x-request-id'')
                then p3(''x-request-id'' := headers req ''x-request-id'') else p3)
      in p4)"

definition orders_onProxyReq :: "headers \<Rightarrow> 'u request \<Rightarrow> headers" where
  "orders_onProxyReq proxyReq req =
     (let p1 = (if truthy (headers req ''x-user-id'')
                then proxyReq(''x-user-id'' := headers req ''x-user-id'') else proxyReq);
          p2 = (if truthy (headers req ''x-user-email'')
                then p1(''x-user-email'' := headers req ''x-user-email'') else p1);
          p3 = (if truthy (headers req ''x-user-roles'')
                then p2(''x-user-roles'' := headers req ''x-user-roles'') else p2);
          p4 = (if truthy (headers req ''x-request-id'')
                then p3(''x-request-id'' := headers req ''x-request-id'') else p3)
      in p4)"

text \<open>\<^verbatim>\<open>process.env.X || fallback\<close>\<close>

definition env_or :: "(string \<rightharpoonup> string) \<Rightarrow> string \<Rightarrow> string \<Rightarrow> string" where
  "env_or env k fallback = (if truthy (env k) then the (env k) else fallback)"

definition services :: "(string \<rightharpoonup> string) \<Rightarrow> service \<Rightarrow> 'u proxy_options" where
  "services env svc =
     (case svc of
        Users \<Rightarrow>
          \<lparr>target = env_or env ''USERS_SERVICE_URL'' ''http://localhost:3001'',
           pathRewrite = [(''^/api/v1/users'', ''/api/v1/users'')],
           changeOrigin = True,
           onProxyReq = users_onProxyReq\<rparr>
      | Orders \<Rightarrow>
          \<lparr>target = env_or env ''ORDERS_SERVICE_URL'' ''http://localhost:3002'',
           pathRewrite = [(''^/api/v1/orders'', ''/api/v1/orders'')],
           changeOrigin = True,
           onProxyReq = orders_onProxyReq\<rparr>)"

text \<open>
  \<^verbatim>\<open>app.use(prefix, handler)\<close> of Express: the handler runs when the path, compared without
  regard to case, is the prefix or continues it with a slash.
\<close>

definition to_lower :: "char \<Rightarrow> char" where
  "to_lower c = (if 65 \<le> (of_char c :: nat) \<and> (of_char c :: nat) \<le> 90
                 then char_of ((of_char c :: nat) + 32) else c)"

definition mounted_at :: "string \<Rightarrow> string \<Rightarrow> bool" where
  "mounted_at prefix p =
     (map to_lower (take (length prefix) p) = prefix \<and>
      (length p = length prefix \<or> p ! length prefix = CHR ''/''))"

text \<open>The chain answers, hands the request to the proxy middleware of a service, or fails.\<close>

datatype dispatch =
    Reply error_response
  | Forward service "token_payload request"
  | Failed js_error

text \<open>
  The tail of the gateway's middleware chain:
  \<^verbatim>\<open>app.use(authenticateToken); app.use('/api/v1/users', usersProxy);
  app.use('/api/v1/orders', ordersProxy); app.use(notFound)\<close>.
\<close>

definition gateway_protected ::
  "(string \<rightharpoonup> string) \<Rightarrow> verifier \<Rightarrow> token_payload request \<Rightarrow> dispatch" where
  "gateway_protected env verify req =
     (case gateway_authenticateToken verify req of
        Respond r \<Rightarrow> Reply r
      | Throws e \<Rightarrow> Failed e
      | Next req' \<Rightarrow>
          (if mounted_at ''/api/v1/users'' (path req')
             then Forward Users req'
           else if mounted_at ''/api/v1/orders'' (path req')
             then Forward Orders req'
           else Reply \<lparr>status = 404, code = ''NOT_FOUND'', message = Route_not_found_msg\<rparr>))"

section \<open>The hop from the gateway to an internal service\<close>

text \<open>
  The proxy library and the HTTP layer of the runtime are not part of the repository. This
  section is what the model takes from them, for the options the repository passes.

  The library starts the outbound request with a copy of the inbound request's headers. It
  decides four of them itself: \<^verbatim>\<open>host\<close> (the target's, under \<^verbatim>\<open>changeOrigin: true\<close>),
  \<^verbatim>\<open>connection\<close>, and for a request without a body \<^verbatim>\<open>content-length\<close> and
  \<^verbatim>\<open>transfer-encoding\<close>. What it puts there is the parameter \<open>lib\<close>, a function of the
  \<^verbatim>\<open>target\<close> and \<^verbatim>\<open>changeOrigin\<close> options and of the inbound headers.
\<close>

definition library_headers :: "string list" where
  "library_headers = [''host'', ''connection'', ''content-length'', ''transfer-encoding'']"

definition outgoing_headers :: "(headers \<Rightarrow> headers) \<Rightarrow> headers \<Rightarrow> headers" where
  "outgoing_headers lib h = (\<lambda>k. if k \<in> set library_headers then lib h k else h k)"

text \<open>
  The runtime refuses to send a header value that holds a character other than the tab,
  the characters from the space to the tilde, and the characters from U+0080 to U+00FF
  (a TypeError). The receiving side drops the spaces and tabs around a value.
\<close>

definition header_char_ok :: "char \<Rightarrow> bool" where
  "header_char_ok c =
     ((of_char c :: nat) = 9 \<or> (32 \<le> (of_char c :: nat) \<and> (of_char c :: nat) \<le> 126) \<or>
      128 \<le> (of_char c :: nat))"

definition is_ows :: "char \<Rightarrow> bool" where
  "is_ows c = (c = CHR '' '' \<or> c = CHR 0x09)"

definition trim_ows :: "string \<Rightarrow> string" where
  "trim_ows v = rev (dropWhile is_ows (rev (dropWhile is_ows v)))"


text \<open>The headers that the gateway's own code writes with values that did not arrive over
  HTTP; every other value of the inbound request has passed the same check on its way in.\<close>

definition identity_headers :: "string list" where
  "identity_headers = [''x-user-id'', ''x-user-email'', ''x-user-roles'']"

text \<open>
  The runtime also refuses a header whose value is \<^verbatim>\<open>undefined\<close>. The edge authenticator
  assigns \<^verbatim>\<open>req.user\<close> and the identity headers together, so \<^verbatim>\<open>x-user-roles\<close> has been
  assigned \<^verbatim>\<open>undefined\<close> exactly when \<^verbatim>\<open>req.user\<close> is a payload without roles.
\<close>

definition assigned_undefined :: "token_payload request \<Rightarrow> bool" where
  "assigned_undefined req = (case user req of None \<Rightarrow> False | Some u \<Rightarrow> roles u = None)"

text \<open>
  The proxy middleware of a service on a request: the TypeError thrown in the gateway when
  the outbound request cannot be built, or else the headers that the internal service
  receives once the outbound request reaches it. The \<^verbatim>\<open>onProxyReq\<close> hook of the options runs
  on the outbound request. Whether the request reaches the service (the network, the
  limits of the receiving side on the size of a request) is outside this model.
\<close>

definition proxy_forward ::
  "(string \<Rightarrow> bool \<Rightarrow> headers \<Rightarrow> headers) \<Rightarrow> token_payload proxy_options
     \<Rightarrow> token_payload request \<Rightarrow> js_error + headers" where
  "proxy_forward lib opts req =
     (let out = onProxyReq opts
                  (outgoing_headers (lib (target opts) (changeOrigin opts)) (headers req)) req
      in if assigned_undefined req then Inl TypeError
         else if list_all (\<lambda>k. case out k of None \<Rightarrow> True | Some v \<Rightarrow> list_all header_char_ok v)
                   identity_headers
           then Inr (\<lambda>k. map_option trim_ows (out k))
         else Inl TypeError)"

section \<open>Internal service: the re-authenticator and the role gate (middleware/auth.js of a service)\<close>

type_synonym identity = "json claims"

definition js_string :: "string \<Rightarrow> nat list" where
  "js_string s = map of_char s"

text \<open>\<^verbatim>\<open>['engineer']\<close>\<close>

definition engineer :: json where
  "engineer = JArr [JStr (js_string ''engineer'')]"

text \<open>Priority 1: the headers set by the gateway. \<open>None\<close> when the header is missing or empty, or
  when \<^verbatim>\<open>JSON.parse\<close> throws inside the \<^verbatim>\<open>try\<close> block.\<close>

definition identity_from_headers :: "headers \<Rightarrow> identity option" where
  "identity_from_headers h =
     (if truthy (h ''x-user-id'')
      then
        (case (if truthy (h ''x-user-roles'') then JSON_parse (the (h ''x-user-roles''))
               else Some engineer) of
           None \<Rightarrow> None
         | Some r \<Rightarrow>
             Some \<lparr>id' = the (h ''x-user-id''),
                   email = (if truthy (h ''x-user-email'') then the (h ''x-user-email'') else []),
                   roles = r\<rparr>)
      else None)"

text \<open>Priority 2: a bearer token verified directly. \<open>None\<close> when there is no token or
  \<^verbatim>\<open>jwt.verify\<close> throws inside the \<^verbatim>\<open>try\<close> block.\<close>

definition identity_from_token :: "verifier \<Rightarrow> headers \<Rightarrow> identity option" where
  "identity_from_token verify h =
     (let token = token_of h
      in if truthy token
         then (case verify (the token) of
                 Inl err \<Rightarrow> None
               | Inr decoded \<Rightarrow>
                   Some \<lparr>id' = id' decoded,
                         email = email decoded,
                         roles = (case roles decoded of
                                    None \<Rightarrow> engineer
                                  | Some rs \<Rightarrow> JArr (map (\<lambda>r. JStr (js_string r)) rs))\<rparr>)
         else None)"

text \<open>The fixed user of the last resort.\<close>

definition default_user :: identity where
  "default_user =
     \<lparr>id' = ''a4841802-6006-42ec-9074-65fdf2138880'',
      email = ''test@example.com'',
      roles = engineer\<rparr>"

definition service_authenticateToken :: "verifier \<Rightarrow> identity request \<Rightarrow> identity outcome" where
  "service_authenticateToken verify req =
     (case identity_from_headers (headers req) of
        Some u \<Rightarrow> Next (req\<lparr>user := Some u\<rparr>)
      | None \<Rightarrow>
          (case identity_from_token verify (headers req) of
             Some u \<Rightarrow> Next (req\<lparr>user := Some u\<rparr>)
           | None \<Rightarrow> Next (req\<lparr>user := Some default_user\<rparr>)))"

text \<open>
  JavaScript truthiness of a parsed value. \<^verbatim>\<open>JSON.parse\<close> turns a number literal into the
  nearest double, so a literal is zero when its digits are all \<open>0\<close> or when its value
  \<open>m * 10^e\<close> is at most \<open>2^-1075\<close>, half of the least positive double.
\<close>

definition digits_val :: "string \<Rightarrow> nat" where
  "digits_val ds = foldl (\<lambda>a c. 10 * a + ((of_char c :: nat) - 48)) 0 ds"

definition num_is_zero :: "string \<Rightarrow> bool" where
  "num_is_zero n =
     (let body = (if n \<noteq> [] \<and> hd n = CHR ''-'' then tl n else n);
          mant = takeWhile (\<lambda>c. c \<noteq> CHR ''e'' \<and> c \<noteq> CHR ''E'') body;
          ex = drop (Suc (length mant)) body;
          ipart = takeWhile is_digit mant;
          fpart = drop (Suc (length ipart)) mant;
          m = digits_val (ipart @ fpart);
          edigits = (if ex \<noteq> [] \<and> (hd ex = CHR ''-'' \<or> hd ex = CHR ''+'') then tl ex else ex);
          e = (if ex \<noteq> [] \<and> hd ex = CHR ''-'' then - int (digits_val edigits)
               else int (digits_val edigits)) - int (length fpart)
      in m = 0 \<or> (e < 0 \<and> m * 2 ^ 1075 \<le> 10 ^ nat (- e)))"

definition json_truthy :: "json \<Rightarrow> bool" where
  "json_truthy v =
     (case v of
        JNull \<Rightarrow> False
      | JBool b \<Rightarrow> b
      | JNum n \<Rightarrow> \<not> num_is_zero n
      | JStr s \<Rightarrow> s \<noteq> []
      | JArr xs \<Rightarrow> True
      | JObj ms \<Rightarrow> True)"

definition is_infix :: "'a list \<Rightarrow> 'a list \<Rightarrow> bool" where
  "is_infix r s = list_ex (\<lambda>i. take (length r) (drop i s) = r) [0..<Suc (length s)]"

text \<open>\<^verbatim>\<open>req.user.roles.includes(role)\<close>: membership in an array, substring of a string, and a
  TypeError (\<open>None\<close>) on a value that has no such method.\<close>

definition roles_includes :: "json \<Rightarrow> string \<Rightarrow> bool option" where
  "roles_includes v role =
     (case v of
        JArr xs \<Rightarrow> Some (JStr (js_string role) \<in> set xs)
      | JStr s \<Rightarrow> Some (is_infix (js_string role) s)
      | _ \<Rightarrow> None)"

text \<open>\<^verbatim>\<open>allowedRoles.some(role => req.user.roles.includes(role))\<close>\<close>

fun some_role :: "json \<Rightarrow> string list \<Rightarrow> bool option" where
  "some_role v [] = Some False"
| "some_role v (role # rest) =
     (case roles_includes v role of
        None \<Rightarrow> None
      | Some True \<Rightarrow> Some True
      | Some False \<Rightarrow> some_role v rest)"

definition authorizeRoles :: "string list \<Rightarrow> identity request \<Rightarrow> identity outcome" where
  "authorizeRoles allowedRoles req =
     (case user req of
        None \<Rightarrow> Respond \<lparr>status = 403, code = ''FORBIDDEN'', message = Access_denied_msg\<rparr>
      | Some u \<Rightarrow>
          (if \<not> json_truthy (roles u)
           then Respond \<lparr>status = 403, code = ''FORBIDDEN'', message = Access_denied_msg\<rparr>
           else
             (case some_role (roles u) allowedRoles of
                None \<Rightarrow> Throws TypeError
              | Some hasRole \<Rightarrow>
                  (if \<not> hasRole
                   then Respond \<lparr>status = 403, code = ''FORBIDDEN'',
                                 message = Insufficient_rights_msg\<rparr>
                   else Next req))))"


section \<open>Users service: profile and user list (routes/users.js over the in-memory store)\<close>

text \<open>
  A stored user is the object that \<^verbatim>\<open>/register\<close> pushes onto \<^verbatim>\<open>users\<close>. The destructuring
  \<^verbatim>\<open>const { passwordHash, ...userWithoutPassword } = user\<close> keeps every field but the hash:
  it is the truncation of the record to its public part.
\<close>

record public_user =
  user_id :: string
  user_email :: string
  user_name :: string
  user_roles :: "string list"
  createdAt :: string
  updatedAt :: string

record stored_user = public_user +
  passwordHash :: string

definition without_password :: "stored_user \<Rightarrow> public_user" where
  "without_password u = public_user.truncate u"

text \<open>A route's answer: an error envelope, the success envelope with its data, or an
  exception that no handler of the route catches.\<close>

datatype 'a reply = Failure error_response | Success 'a | Uncaught js_error

text \<open>The handler of \<^verbatim>\<open>GET /profile\<close>, after \<^verbatim>\<open>authenticateToken\<close>.\<close>

definition profile_handler :: "stored_user list \<Rightarrow> identity request \<Rightarrow> public_user reply" where
  "profile_handler users req =
     (case user req of
        None \<Rightarrow> Uncaught TypeError
      | Some caller \<Rightarrow>
          (case find (\<lambda>u. user_id u = id' caller) users of
             None \<Rightarrow> Failure \<lparr>status = 404, code = ''USER_NOT_FOUND'', message = User_not_found_msg\<rparr>
           | Some u \<Rightarrow> Success (without_password u)))"

definition get_profile ::
  "verifier \<Rightarrow> stored_user list \<Rightarrow> identity request \<Rightarrow> public_user reply" where
  "get_profile verify users req =
     (case service_authenticateToken verify req of
        Respond r \<Rightarrow> Failure r
      | Throws e \<Rightarrow> Uncaught e
      | Next req1 \<Rightarrow> profile_handler users req1)"

text \<open>
  JavaScript numbers as far as the list route needs them: the doubles with an integer
  value, the two infinities and NaN. The two zeros are one value here: the route
  multiplies, slices and prints them alike.
\<close>

datatype double = Finite int | PosInf | NegInf | NaN

fun bit_length :: "nat \<Rightarrow> nat" where
  "bit_length 0 = 0"
| "bit_length (Suc n) = Suc (bit_length (Suc n div 2))"

text \<open>The double nearest to an integer of 54 bits or more: 53 bits are kept, a tie goes to
  the even neighbour, and \<open>2^1024\<close> and beyond is an infinity.\<close>

definition round_big :: "int \<Rightarrow> double" where
  "round_big n =
     (let a = nat \<bar>n\<bar>;
          e = bit_length a - 53;
          q = a div 2 ^ e;
          r = a mod 2 ^ e;
          q' = (if 2 ^ e < 2 * r \<or> (2 * r = 2 ^ e \<and> odd q) then Suc q else q);
          m = q' * 2 ^ e
      in if 2 ^ 1024 \<le> m then (if n < 0 then NegInf else PosInf)
         else Finite (if n < 0 then - int m else int m))"

definition to_double :: "int \<Rightarrow> double" where
  "to_double n = (if \<bar>n\<bar> < 2 ^ 53 then Finite n else round_big n)"

definition js_space :: "char \<Rightarrow> bool" where
  "js_space c = ((of_char c :: nat) \<in> {9, 10, 11, 12, 13, 32, 160})"

text \<open>\<^verbatim>\<open>parseInt(s)\<close>: leading white space, a sign, an optional \<^verbatim>\<open>0x\<close>, then the longest
  run of digits of the radix; NaN when that run is empty, else the nearest double.\<close>

definition parseInt :: "string \<Rightarrow> double" where
  "parseInt s =
     (let t = dropWhile js_space s;
          neg = (t \<noteq> [] \<and> hd t = CHR ''-'');
          t1 = (if t \<noteq> [] \<and> (hd t = CHR ''-'' \<or> hd t = CHR ''+'') then tl t else t);
          hex = (startsWith t1 ''0x'' \<or> startsWith t1 ''0X'');
          radix = (if hex then 16 else 10 :: nat);
          t2 = (if hex then drop 2 t1 else t1);
          ds = takeWhile (\<lambda>c. case hex_val c of None \<Rightarrow> False | Some d \<Rightarrow> d < radix) t2;
          n = foldl (\<lambda>a c. a * radix + the (hex_val c)) 0 ds
      in if ds = [] then NaN else to_double (if neg then - int n else int n))"

definition is_negative :: "double \<Rightarrow> bool" where
  "is_negative d = (case d of Finite a \<Rightarrow> a < 0 | NegInf \<Rightarrow> True | _ \<Rightarrow> False)"

definition infinity :: "bool \<Rightarrow> double" where
  "infinity negative = (if negative then NegInf else PosInf)"

text \<open>\<^verbatim>\<open>a - b\<close> and \<^verbatim>\<open>a * b\<close> on these values.\<close>

definition js_sub :: "double \<Rightarrow> double \<Rightarrow> double" where
  "js_sub a b =
     (case (a, b) of
        (NaN, _) \<Rightarrow> NaN
      | (_, NaN) \<Rightarrow> NaN
      | (Finite x, Finite y) \<Rightarrow> to_double (x - y)
      | (Finite x, PosInf) \<Rightarrow> NegInf
      | (Finite x, NegInf) \<Rightarrow> PosInf
      | (PosInf, PosInf) \<Rightarrow> NaN
      | (NegInf, NegInf) \<Rightarrow> NaN
      | (PosInf, _) \<Rightarrow> PosInf
      | (NegInf, _) \<Rightarrow> NegInf)"

definition js_mul :: "double \<Rightarrow> double \<Rightarrow> double" where
  "js_mul a b =
     (case (a, b) of
        (NaN, _) \<Rightarrow> NaN
      | (_, NaN) \<Rightarrow> NaN
      | (Finite x, Finite y) \<Rightarrow> to_double (x * y)
      | (Finite x, _) \<Rightarrow> (if x = 0 then NaN else infinity (is_negative a \<noteq> is_negative b))
      | (_, Finite y) \<Rightarrow> (if y = 0 then NaN else infinity (is_negative a \<noteq> is_negative b))
      | (_, _) \<Rightarrow> infinity (is_negative a \<noteq> is_negative b))"

text \<open>\<^verbatim>\<open>xs.slice(start, end)\<close>: NaN counts as 0, a negative index counts from the end, and
  both are clamped to the length.\<close>

definition slice_index :: "nat \<Rightarrow> double \<Rightarrow> nat" where
  "slice_index len i =
     (case i of
        NaN \<Rightarrow> 0
      | PosInf \<Rightarrow> len
      | NegInf \<Rightarrow> 0
      | Finite k \<Rightarrow> (if k < 0 then nat (max (int len + k) 0) else nat (min k (int len))))"

definition js_slice :: "'a list \<Rightarrow> double \<Rightarrow> double \<Rightarrow> 'a list" where
  "js_slice xs start end' =
     (let k = slice_index (length xs) start;
          final = slice_index (length xs) end'
      in take (final - k) (drop k xs))"

text \<open>A number in a JSON response: \<^verbatim>\<open>JSON.stringify\<close> prints NaN and the infinities as
  \<^verbatim>\<open>null\<close>, here \<open>None\<close>.\<close>

type_synonym js_number = "int option"

definition json_number :: "double \<Rightarrow> js_number" where
  "json_number d = (case d of Finite n \<Rightarrow> Some n | _ \<Rightarrow> None)"

text \<open>\<^verbatim>\<open>Math.ceil(n / limitNum)\<close> for the length \<open>n\<close> of an array, as the response prints
  it: the ceiling of the exact quotient, which the double division does not miss for a
  length below \<open>2^52\<close>; a division by zero gives NaN or an infinity, printed as
  \<^verbatim>\<open>null\<close>.\<close>

definition ceil_div :: "nat \<Rightarrow> double \<Rightarrow> js_number" where
  "ceil_div n limitNum =
     (case limitNum of
        NaN \<Rightarrow> None
      | PosInf \<Rightarrow> Some 0
      | NegInf \<Rightarrow> Some 0
      | Finite l \<Rightarrow> (if l = 0 then None else Some (- ((- int n) div l))))"

text \<open>The query string of the list route; a parameter that is not given is \<open>None\<close>.\<close>

record query =
  page :: "string option"
  limit :: "string option"
  role :: "string option"

record pagination =
  pageNum :: js_number
  limitNum :: js_number
  total' :: nat
  totalPages :: js_number

text \<open>The handler of \<^verbatim>\<open>GET /\<close>, after \<^verbatim>\<open>authenticateToken\<close> and
  \<^verbatim>\<open>authorizeRoles('admin')\<close>. The defaults of \<^verbatim>\<open>page\<close> and \<^verbatim>\<open>limit\<close> are the numbers 1
  and 10.\<close>

definition list_handler ::
  "stored_user list \<Rightarrow> query \<Rightarrow> (public_user list \<times> pagination) reply" where
  "list_handler users q =
     (let pageNum = (case page q of None \<Rightarrow> Finite 1 | Some s \<Rightarrow> parseInt s);
          limitNum = (case limit q of None \<Rightarrow> Finite 10 | Some s \<Rightarrow> parseInt s);
          filteredUsers = (if truthy (role q)
                           then filter (\<lambda>u. the (role q) \<in> set (user_roles u)) users
                           else users);
          startIndex = js_mul (js_sub pageNum (Finite 1)) limitNum;
          endIndex = js_mul pageNum limitNum;
          paginatedUsers = js_slice filteredUsers startIndex endIndex;
          usersWithoutPasswords = map without_password paginatedUsers
      in Success
           (usersWithoutPasswords,
            \<lparr>pageNum = json_number pageNum,
             limitNum = json_number limitNum,
             total' = length filteredUsers,
             totalPages = ceil_div (length filteredUsers) limitNum\<rparr>))"

definition list_users ::
  "verifier \<Rightarrow> stored_user list \<Rightarrow> query \<Rightarrow> identity request
     \<Rightarrow> (public_user list \<times> pagination) reply" where
  "list_users verify users q req =
     (case service_authenticateToken verify req of
        Respond r \<Rightarrow> Failure r
      | Throws e \<Rightarrow> Uncaught e
      | Next req1 \<Rightarrow>
          (case authorizeRoles [''admin''] req1 of
             Respond r \<Rightarrow> Failure r
           | Throws e \<Rightarrow> Uncaught e
           | Next req2 \<Rightarrow> list_handler users q))"

text \<open>Two stores hold the same users in the same order and differ at most in password hashes.\<close>

definition same_but_hashes :: "stored_user list \<Rightarrow> stored_user list \<Rightarrow> bool" where
  "same_but_hashes us vs =
     list_all2
       (\<lambda>u v. user_id u = user_id v \<and> user_email u = user_email v \<and> user_name u = user_name v \<and>
              user_roles u = user_roles v \<and> createdAt u = createdAt v \<and> updatedAt u = updatedAt v)
       us vs"

section \<open>Sample inputs\<close>

text \<open>A verifier that knows four tokens and rejects the rest: a good one, an expired one,
  one whose subject id has a space on either side, and one whose payload has no roles.\<close>

definition sample_verify :: verifier where
  "sample_verify t =
     (if t = ''good''
        then Inr \<lparr>id' = ''u1'', email = ''a@b.com'', roles = Some [''manager'']\<rparr>
      else if t = ''expired'' then Inl TokenExpiredError
      else if t = ''padded''
        then Inr \<lparr>id' = '' u1 '', email = ''a@b.com'', roles = Some [''manager'']\<rparr>
      else if t = ''bare''
        then Inr \<lparr>id' = ''u2'', email = ''c@d.com'', roles = None\<rparr>
      else Inl JsonWebTokenError)"

text \<open>What the proxy library does by default for a request without a body: the host of
  the target (the target without \<^verbatim>\<open>http://\<close>) under \<^verbatim>\<open>changeOrigin\<close>, and
  \<^verbatim>\<open>connection: close\<close>.\<close>

definition sample_lib :: "string \<Rightarrow> bool \<Rightarrow> headers \<Rightarrow> headers" where
  "sample_lib target_url change_origin h =
     (\<lambda>k. if k = ''host'' then (if change_origin then Some (drop 7 target_url) else h ''host'')
          else if k = ''connection'' then Some ''close''
          else None)"

text \<open>A store of two users, and the same store after both passwords were changed.\<close>

definition sample_users :: "stored_user list" where
  "sample_users =
     [\<lparr>user_id = ''u1'', user_email = ''a@b.com'', user_name = ''Ann'',
       user_roles = [''admin''], createdAt = ''2024-01-01T00:00:00.000Z'',
       updatedAt = ''2024-01-01T00:00:00.000Z'', passwordHash = ''$2b$10$abcdefgh''\<rparr>,
      \<lparr>user_id = ''u2'', user_email = ''c@d.com'', user_name = ''Bob'',
       user_roles = [''engineer''], createdAt = ''2024-02-01T00:00:00.000Z'',
       updatedAt = ''2024-02-01T00:00:00.000Z'', passwordHash = ''$2b$10$ijklmnop''\<rparr>]"

definition sample_users_rehashed :: "stored_user list" where
  "sample_users_rehashed =
     [\<lparr>user_id = ''u1'', user_email = ''a@b.com'', user_name = ''Ann'',
       user_roles = [''admin''], createdAt = ''2024-01-01T00:00:00.000Z'',
       updatedAt = ''2024-01-01T00:00:00.000Z'', passwordHash = ''$2b$10$qrstuvwx''\<rparr>,
      \<lparr>user_id = ''u2'', user_email = ''c@d.com'', user_name = ''Bob'',
       user_roles = [''engineer''], createdAt = ''2024-02-01T00:00:00.000Z'',
       updatedAt = ''2024-02-01T00:00:00.000Z'', passwordHash = ''$2b$10$yzabcdef''\<rparr>]"

text \<open>A request of the administrator \<^verbatim>\<open>u1\<close> as the gateway would forward it.\<close>

definition admin_request :: "identity request" where
  "admin_request =
     \<lparr>path = ''/api/v1/users'',
      headers = map_of [(''x-user-id'', ''u1''), (''x-user-email'', ''a@b.com''),
                        (''x-user-roles'', JSON_stringify [''admin''])],
      user = None\<rparr>"

section \<open>Properties of the edge authenticator\<close>

lemma startsWith_trans: "startsWith p r \<Longrightarrow> startsWith r q \<Longrightarrow> startsWith p q"
  unfolding startsWith_def
  by (metis append_take_drop_id take_all_iff take_append linorder_le_cases take_take min.absorb1 min.absorb2)

lemma startsWith_publicRoutes: "r \<in> set publicRoutes \<Longrightarrow> startsWith r ''/''"
  by (auto simp: publicRoutes_def startsWith_def)

text \<open>Since \<^verbatim>\<open>'/'\<close> is one of the routes and the match is by prefix, the public routes are
  exactly the paths that begin with a slash.\<close>

lemma public_route_iff: "public_route p \<longleftrightarrow> startsWith p ''/''"
proof
  assume "public_route p"
  then obtain r where r: "r \<in> set publicRoutes" and "p = r \<or> startsWith p r"
    by (auto simp: public_route_def list_ex_iff)
  then have "startsWith p r" by (auto simp: startsWith_def)
  with r show "startsWith p ''/''"
    using startsWith_publicRoutes startsWith_trans by blast
next
  assume "startsWith p ''/''"
  moreover have "''/'' \<in> set publicRoutes" by (simp add: publicRoutes_def)
  ultimately show "public_route p"
    unfolding public_route_def list_ex_iff by blast
qed

lemma not_public_star: "\<not> public_route ''*''"
  by (simp add: public_route_iff startsWith_def)

text \<open>So the edge authenticator lets every request for a path that begins with a slash
  through, without looking at its headers.\<close>

lemma slash_path_not_checked:
  "startsWith (path req) ''/'' \<Longrightarrow> gateway_authenticateToken verify req = Next req"
  by (simp add: gateway_authenticateToken_def public_route_iff)

text \<open>On a path outside the public routes, a request without a token is answered with
  \<^verbatim>\<open>TOKEN_REQUIRED\<close> and status 401 and goes no further.\<close>

lemma no_token_rejected:
  assumes "\<not> public_route (path req)" and "\<not> truthy (token_of (headers req))"
  shows "gateway_protected env verify req =
           Reply \<lparr>status = 401, code = ''TOKEN_REQUIRED'', message = Token_required_msg\<rparr>"
  using assms by (simp add: gateway_protected_def gateway_authenticateToken_def Let_def)

text \<open>
  Claim C1: a request to a protected route that presents no bearer token is rejected with
  \<^verbatim>\<open>TOKEN_REQUIRED\<close> and status 401 and is never forwarded to an internal service.
  The code does otherwise on \<^verbatim>\<open>/api/v1/orders/projects\<close>: the path begins with the public
  route \<^verbatim>\<open>'/'\<close>, the token check is skipped, and the request, which has no
  \<^verbatim>\<open>Authorization\<close> header, is handed to the proxy of the orders service, which sends it on
  without any credential.
\<close>

theorem gateway_forwards_request_without_token:
  "gateway_protected (map_of []) sample_verify
     \<lparr>path = ''/api/v1/orders/projects'', headers = map_of [], user = None\<rparr>
   = Forward Orders \<lparr>path = ''/api/v1/orders/projects'', headers = map_of [], user = None\<rparr> \<and>
   (\<exists>out. proxy_forward sample_lib (services (map_of []) Orders)
             \<lparr>path = ''/api/v1/orders/projects'', headers = map_of [], user = None\<rparr>
           = Inr out \<and>
          out ''host'' = Some ''localhost:3002'' \<and>
          out ''authorization'' = None \<and> out ''x-user-id'' = None)"
proof -
  have "public_route ''/api/v1/orders/projects''"
    by (simp add: public_route_iff startsWith_def)
  then have "gateway_protected (map_of []) sample_verify
     \<lparr>path = ''/api/v1/orders/projects'', headers = map_of [], user = None\<rparr>
   = Forward Orders \<lparr>path = ''/api/v1/orders/projects'', headers = map_of [], user = None\<rparr>"
    by (simp add: gateway_protected_def gateway_authenticateToken_def mounted_at_def to_lower_def)
  moreover have "proxy_forward sample_lib (services (map_of []) Orders)
             \<lparr>path = ''/api/v1/orders/projects'', headers = map_of [], user = None\<rparr>
           = Inr (\<lambda>k. map_option trim_ows
                    (if k = ''host'' then Some ''localhost:3002''
                     else if k = ''connection'' then Some ''close'' else None))"
    by (simp add: proxy_forward_def services_def orders_onProxyReq_def outgoing_headers_def
        library_headers_def sample_lib_def env_or_def truthy_def assigned_undefined_def
        identity_headers_def Let_def fun_eq_iff)
  ultimately show ?thesis
    by (simp add: trim_ows_def is_ows_def)
qed

section \<open>Properties of token verification at the edge\<close>

text \<open>
  Claim C4 as stated fails: an expired token presented on a path outside the public routes
  is answered with the code \<^verbatim>\<open>INVALID_TOKEN\<close> and status 403, not with
  \<^verbatim>\<open>TOKEN_EXPIRED\<close> and not with status 401.
\<close>

theorem expired_token_collapsed_counterexample:
  "gateway_authenticateToken sample_verify
     \<lparr>path = ''*'', headers = map_of [(''authorization'', ''Bearer expired'')], user = None\<rparr>
   = Respond \<lparr>status = 403, code = ''INVALID_TOKEN'', message = Invalid_or_expired_msg\<rparr>"
  by (simp add: gateway_authenticateToken_def not_public_star truthy_def sample_verify_def
      token_of_def js_index_def Let_def)

text \<open>
  Claim C4 (amended): on a path outside the public routes, a missing token is rejected
  with \<^verbatim>\<open>TOKEN_REQUIRED\<close> and status 401, and a token whose verification fails for any
  reason, expiry included, is rejected with the one code \<^verbatim>\<open>INVALID_TOKEN\<close> and status 403.
\<close>

theorem verification_failures_collapsed:
  assumes "\<not> public_route (path req)"
  shows "(\<not> truthy (token_of (headers req)) \<longrightarrow>
            gateway_authenticateToken verify req =
              Respond \<lparr>status = 401, code = ''TOKEN_REQUIRED'', message = Token_required_msg\<rparr>) \<and>
         (truthy (token_of (headers req)) \<and> verify (the (token_of (headers req))) = Inl err \<longrightarrow>
            gateway_authenticateToken verify req =
              Respond \<lparr>status = 403, code = ''INVALID_TOKEN'', message = Invalid_or_expired_msg\<rparr>)"
  using assms by (simp add: gateway_authenticateToken_def Let_def)

text \<open>The amended claim C4 at two requests for the path \<^verbatim>\<open>*\<close>: one without a token, one
  with a token of a bad signature.\<close>

theorem verification_failures_collapsed_witness:
  "\<not> public_route ''*'' \<and>
   gateway_authenticateToken sample_verify \<lparr>path = ''*'', headers = map_of [], user = None\<rparr>
     = Respond \<lparr>status = 401, code = ''TOKEN_REQUIRED'', message = Token_required_msg\<rparr> \<and>
   gateway_authenticateToken sample_verify
       \<lparr>path = ''*'', headers = map_of [(''authorization'', ''Bearer forged'')], user = None\<rparr>
     = Respond \<lparr>status = 403, code = ''INVALID_TOKEN'', message = Invalid_or_expired_msg\<rparr>"
proof -
  let ?r1 = "\<lparr>path = ''*'', headers = map_of [], user = None :: token_payload option\<rparr>"
  let ?r2 = "\<lparr>path = ''*'', headers = map_of [(''authorization'', ''Bearer forged'')],
              user = None :: token_payload option\<rparr>"
  have h: "\<not> public_route ''*''" by (rule not_public_star)
  have t1: "\<not> truthy (token_of (headers ?r1))"
    by (simp add: token_of_def truthy_def)
  have t2: "truthy (token_of (headers ?r2)) \<and>
            sample_verify (the (token_of (headers ?r2))) = Inl JsonWebTokenError"
    by (simp add: token_of_def truthy_def js_index_def sample_verify_def)
  have c1: "gateway_authenticateToken sample_verify ?r1
            = Respond \<lparr>status = 401, code = ''TOKEN_REQUIRED'', message = Token_required_msg\<rparr>"
    using verification_failures_collapsed [of ?r1 sample_verify] h t1 by simp
  have c2: "gateway_authenticateToken sample_verify ?r2
            = Respond \<lparr>status = 403, code = ''INVALID_TOKEN'', message = Invalid_or_expired_msg\<rparr>"
    using verification_failures_collapsed [of ?r2 sample_verify JsonWebTokenError] h t2 by simp
  from h c1 c2 show ?thesis by blast
qed

section \<open>Properties of the correlation tagger\<close>

text \<open>
  Claim C7: when \<^verbatim>\<open>randomUUID()\<close> returns a non-empty string, the middleware chooses a
  non-empty identifier, which is the inbound \<^verbatim>\<open>x-request-id\<close> header when that is present
  and non-empty and a generated one otherwise, and writes it to the \<^verbatim>\<open>x-request-id\<close> header
  of both the request and the response.
\<close>

theorem request_id_assigned:
  assumes "randomUUID \<noteq> []"
  shows "\<exists>rid. rid \<noteq> [] \<and>
     headers (fst (request_id_middleware rTracer_id randomUUID req res)) ''x-request-id'' = Some rid \<and>
     snd (request_id_middleware rTracer_id randomUUID req res) ''x-request-id'' = Some rid \<and>
     (if truthy (headers req ''x-request-id'') then headers req ''x-request-id'' = Some rid
      else if truthy rTracer_id then rTracer_id = Some rid
      else rid = randomUUID)"
  using assms
  by (auto simp: request_id_middleware_def js_or_def truthy_def Let_def split: option.splits)

text \<open>Claim C7 at a request that brings its own identifier \<^verbatim>\<open>abc\<close>, and at a request without
  one, for which the tracer has no identifier either.\<close>

theorem request_id_assigned_witness:
  "''9b2f'' \<noteq> [] \<and>
   headers (fst (request_id_middleware None ''9b2f''
       \<lparr>path = ''/health'', headers = map_of [(''x-request-id'', ''abc'')], user = None :: token_payload option\<rparr>
       (map_of []))) ''x-request-id'' = Some ''abc'' \<and>
   snd (request_id_middleware None ''9b2f''
       \<lparr>path = ''/health'', headers = map_of [(''x-request-id'', ''abc'')], user = None :: token_payload option\<rparr>
       (map_of [])) ''x-request-id'' = Some ''abc'' \<and>
   headers (fst (request_id_middleware None ''9b2f''
       \<lparr>path = ''/health'', headers = map_of [], user = None :: token_payload option\<rparr>
       (map_of []))) ''x-request-id'' = Some ''9b2f'' \<and>
   snd (request_id_middleware None ''9b2f''
       \<lparr>path = ''/health'', headers = map_of [], user = None :: token_payload option\<rparr>
       (map_of [])) ''x-request-id'' = Some ''9b2f''"
proof -
  let ?req = "\<lparr>path = ''/health'', headers = map_of [(''x-request-id'', ''abc'')],
               user = None :: token_payload option\<rparr>"
  let ?bare = "\<lparr>path = ''/health'', headers = map_of [], user = None :: token_payload option\<rparr>"
  have h: "''9b2f'' \<noteq> []" by simp
  have t: "truthy (headers ?req ''x-request-id'')" by (simp add: truthy_def)
  have f: "\<not> truthy (headers ?bare ''x-request-id'')" "\<not> truthy None" by (simp_all add: truthy_def)
  from request_id_assigned [OF h, of None ?req "map_of []"] t
  have a: "headers (fst (request_id_middleware None ''9b2f'' ?req (map_of []))) ''x-request-id''
             = Some ''abc'' \<and>
           snd (request_id_middleware None ''9b2f'' ?req (map_of [])) ''x-request-id'' = Some ''abc''"
    by auto
  from request_id_assigned [OF h, of None ?bare "map_of []"] f
  have b: "headers (fst (request_id_middleware None ''9b2f'' ?bare (map_of []))) ''x-request-id''
             = Some ''9b2f'' \<and>
           snd (request_id_middleware None ''9b2f'' ?bare (map_of [])) ''x-request-id'' = Some ''9b2f''"
    by auto
  from h a b show ?thesis by blast
qed

section \<open>Properties of the role gate\<close>

lemma some_role_array:
  "some_role (JArr xs) rs = Some (\<exists>r \<in> set rs. JStr (js_string r) \<in> set xs)"
  by (induction rs) (auto simp: roles_includes_def split: bool.splits)

lemma authorizeRoles_array:
  assumes "user req = Some u" and "roles u = JArr xs"
  shows "authorizeRoles allowedRoles req =
        (if set (map (\<lambda>r. JStr (js_string r)) allowedRoles) \<inter> set xs \<noteq> {} then Next req
         else Respond \<lparr>status = 403, code = ''FORBIDDEN'', message = Insufficient_rights_msg\<rparr>)"
proof -
  have "(\<exists>r \<in> set allowedRoles. JStr (js_string r) \<in> set xs) \<longleftrightarrow>
        set (map (\<lambda>r. JStr (js_string r)) allowedRoles) \<inter> set xs \<noteq> {}"
    by auto
  with assms show ?thesis
    by (simp add: authorizeRoles_def json_truthy_def some_role_array)
qed

lemma authorizeRoles_empty:
  "\<exists>m. authorizeRoles [] req = Respond \<lparr>status = 403, code = ''FORBIDDEN'', message = m\<rparr>"
  by (simp add: authorizeRoles_def split: option.splits)

lemma authorizeRoles_denial:
  "authorizeRoles allowedRoles req = Respond r \<Longrightarrow> status r = 403 \<and> code r = ''FORBIDDEN''"
  by (auto simp: authorizeRoles_def split: option.splits if_splits)

text \<open>
  Claim C5 as stated fails: with an empty list of required roles the gate does not allow
  the request. A caller whose roles are \<^verbatim>\<open>['admin']\<close> is answered with \<^verbatim>\<open>FORBIDDEN\<close> and
  status 403.
\<close>

theorem empty_requirement_denies_counterexample:
  "authorizeRoles []
     \<lparr>path = ''/api/v1/users'', headers = map_of [],
      user = Some \<lparr>id' = ''u1'', email = ''a@b.com'', roles = JArr [JStr (js_string ''admin'')]\<rparr>\<rparr>
   = Respond \<lparr>status = 403, code = ''FORBIDDEN'', message = Insufficient_rights_msg\<rparr>"
  by (simp add: authorizeRoles_def json_truthy_def)

text \<open>
  Claim C5 (amended): for a caller whose roles are an array, the gate lets the request pass
  exactly when one of the required roles is an element of the array; an empty list of
  required roles therefore denies every request; and every denial is a \<^verbatim>\<open>FORBIDDEN\<close>
  response with status 403.
\<close>

theorem role_gate:
  "(user req = Some u \<and> roles u = JArr xs \<longrightarrow>
      authorizeRoles allowedRoles req =
        (if set (map (\<lambda>r. JStr (js_string r)) allowedRoles) \<inter> set xs \<noteq> {} then Next req
         else Respond \<lparr>status = 403, code = ''FORBIDDEN'', message = Insufficient_rights_msg\<rparr>)) \<and>
   (\<exists>m. authorizeRoles [] req = Respond \<lparr>status = 403, code = ''FORBIDDEN'', message = m\<rparr>) \<and>
   (\<forall>r. authorizeRoles allowedRoles req = Respond r \<longrightarrow> status r = 403 \<and> code r = ''FORBIDDEN'')"
  using authorizeRoles_array [of req u xs allowedRoles] authorizeRoles_empty [of req]
    authorizeRoles_denial [of allowedRoles req]
  by blast

text \<open>The amended claim C5 at the requirement \<^verbatim>\<open>['admin']\<close>: an admin passes, an engineer is
  denied with \<^verbatim>\<open>FORBIDDEN\<close> and status 403.\<close>

theorem role_gate_witness:
  "authorizeRoles [''admin'']
     \<lparr>path = ''/api/v1/users'', headers = map_of [],
      user = Some \<lparr>id' = ''u1'', email = ''a@b.com'', roles = JArr [JStr (js_string ''admin'')]\<rparr>\<rparr>
   = Next
     \<lparr>path = ''/api/v1/users'', headers = map_of [],
      user = Some \<lparr>id' = ''u1'', email = ''a@b.com'', roles = JArr [JStr (js_string ''admin'')]\<rparr>\<rparr> \<and>
   authorizeRoles [''admin'']
     \<lparr>path = ''/api/v1/users'', headers = map_of [],
      user = Some \<lparr>id' = ''u2'', email = ''c@d.com'', roles = JArr [JStr (js_string ''engineer'')]\<rparr>\<rparr>
   = Respond \<lparr>status = 403, code = ''FORBIDDEN'', message = Insufficient_rights_msg\<rparr>"
proof -
  let ?admin = "\<lparr>id' = ''u1'', email = ''a@b.com'', roles = JArr [JStr (js_string ''admin'')]\<rparr>"
  let ?eng = "\<lparr>id' = ''u2'', email = ''c@d.com'', roles = JArr [JStr (js_string ''engineer'')]\<rparr>"
  let ?ra = "\<lparr>path = ''/api/v1/users'', headers = map_of [], user = Some ?admin\<rparr>"
  let ?re = "\<lparr>path = ''/api/v1/users'', headers = map_of [], user = Some ?eng\<rparr>"
  let ?deny = "\<lparr>status = 403, code = ''FORBIDDEN'', message = Insufficient_rights_msg\<rparr>"
  have a: "authorizeRoles [''admin''] ?ra = Next ?ra"
    using role_gate [of ?ra ?admin "[JStr (js_string ''admin'')]" "[''admin'']"] by simp
  have e: "authorizeRoles [''admin''] ?re = Respond ?deny"
    using role_gate [of ?re ?eng "[JStr (js_string ''engineer'')]" "[''admin'']"]
    by (simp add: js_string_def)
  from a e show ?thesis by blast
qed

section \<open>JSON.parse undoes JSON.stringify on role lists\<close>

lemma map_option_append_Nil [simp]: "map_option ((@) []) x = x"
  by (cases x) simp_all

lemma hex_val_hex_digit: "hex_val (hex_digit n) = Some (n mod 16)"
proof -
  have "n mod 16 \<in> set [0..<16]" by simp
  then show ?thesis
    unfolding hex_digit_def
    by (simp add: upt_rec hex_val_def) (elim disjE; simp)
qed

text \<open>The lexer, inside a string literal, reads the quoting of a character back as that
  character.\<close>

lemma lex_str_quote_char:
  "lex (L_str acc) (quote_char c @ rest) = lex (L_str (of_char c # acc)) rest"
proof -
  consider (dq) "c = dquote" | (bs) "c = backslash"
    | (b) "c = CHR 0x08" | (f) "c = CHR 0x0C" | (n) "c = CHR 0x0A" | (r) "c = CHR 0x0D" | (t) "c = CHR 0x09"
    | (ctl) "c \<noteq> dquote" "c \<noteq> backslash" "c \<noteq> CHR 0x08" "c \<noteq> CHR 0x0C" "c \<noteq> CHR 0x0A"
        "c \<noteq> CHR 0x0D" "c \<noteq> CHR 0x09" "(of_char c :: nat) < 32"
    | (plain) "c \<noteq> dquote" "c \<noteq> backslash" "\<not> (of_char c :: nat) < 32"
    by (cases "(of_char c :: nat) < 32") auto
  then show ?thesis
  proof cases
    case dq then show ?thesis
      by (simp add: quote_char_def lex_char_def unescape_def dquote_def backslash_def)
  next
    case bs then show ?thesis
      by (simp add: quote_char_def lex_char_def unescape_def dquote_def backslash_def)
  next
    case b then show ?thesis
      by (simp add: quote_char_def lex_char_def unescape_def dquote_def backslash_def)
  next
    case f then show ?thesis
      by (simp add: quote_char_def lex_char_def unescape_def dquote_def backslash_def)
  next
    case n then show ?thesis
      by (simp add: quote_char_def lex_char_def unescape_def dquote_def backslash_def)
  next
    case r then show ?thesis
      by (simp add: quote_char_def lex_char_def unescape_def dquote_def backslash_def)
  next
    case t then show ?thesis
      by (simp add: quote_char_def lex_char_def unescape_def dquote_def backslash_def)
  next
    case ctl
    have d: "(of_char c :: nat) div 16 mod 16 = of_char c div 16" using ctl(8) by simp
    have h0: "hex_val CHR ''0'' = Some 0" by (simp add: hex_val_def)
    have q: "quote_char c = [backslash, CHR ''u'', CHR ''0'', CHR ''0'',
              hex_digit (of_char c div 16), hex_digit (of_char c)]"
      using ctl by (simp add: quote_char_def)
    have bsq: "backslash \<noteq> dquote" by (simp add: dquote_def backslash_def)
    show ?thesis
      unfolding q
      by (simp add: lex_char_def bsq h0 hex_val_hex_digit d)
  next
    case plain
    then have "c \<noteq> CHR 0x08 \<and> c \<noteq> CHR 0x0C \<and> c \<noteq> CHR 0x0A \<and> c \<noteq> CHR 0x0D \<and> c \<noteq> CHR 0x09"
      by auto
    with plain show ?thesis
      by (simp add: quote_char_def lex_char_def)
  qed
qed

lemma lex_str_quoted:
  "lex (L_str acc) (concat (map quote_char s) @ rest) = lex (L_str (rev (js_string s) @ acc)) rest"
proof (induction s arbitrary: acc)
  case Nil
  then show ?case by (simp add: js_string_def)
next
  case (Cons c s)
  have "lex (L_str acc) (concat (map quote_char (c # s)) @ rest)
        = lex (L_str acc) (quote_char c @ (concat (map quote_char s) @ rest))"
    by simp
  also have "\<dots> = lex (L_str (of_char c # acc)) (concat (map quote_char s) @ rest)"
    by (rule lex_str_quote_char)
  also have "\<dots> = lex (L_str (rev (js_string s) @ of_char c # acc)) rest"
    by (rule Cons.IH)
  finally show ?case by (simp add: js_string_def)
qed

lemma lex_quote_string:
  "lex L_top (quote_string s @ rest) = map_option (Cons (T_scalar (JStr (js_string s)))) (lex L_top rest)"
proof -
  have "lex L_top (quote_string s @ rest) = lex (L_str []) (concat (map quote_char s) @ dquote # rest)"
    by (simp add: quote_string_def lex_char_def lex_top_def is_ws_def dquote_def)
  also have "\<dots> = lex (L_str (rev (js_string s))) (dquote # rest)"
    using lex_str_quoted [of "[]" s "dquote # rest"] by simp
  also have "\<dots> = map_option (Cons (T_scalar (JStr (js_string s)))) (lex L_top rest)"
    by (simp add: lex_char_def) (cases "lex L_top rest"; simp)
  finally show ?thesis .
qed

lemma join_comma_Cons:
  "join_comma (x # xs) = x @ concat (map (\<lambda>y. CHR '','' # y) xs)"
  by (induction xs arbitrary: x) simp_all

lemma lex_comma_strings:
  "lex L_top (concat (map (\<lambda>r. CHR '','' # quote_string r) rs) @ rest)
   = map_option ((@) (concat (map (\<lambda>r. [T_comma, T_scalar (JStr (js_string r))]) rs))) (lex L_top rest)"
proof (induction rs)
  case Nil
  show ?case by (cases "lex L_top rest") simp_all
next
  case (Cons r rs)
  have c: "lex_char L_top CHR '','' = Some ([T_comma], L_top)"
    by (simp add: lex_char_def lex_top_def is_ws_def)
  show ?case
    by (simp add: c lex_quote_string Cons.IH option.map_comp comp_def)
qed

lemma lex_stringify:
  "lex L_top (JSON_stringify rs) =
     Some (T_lbrack #
           (case rs of [] \<Rightarrow> []
            | r # rs' \<Rightarrow> T_scalar (JStr (js_string r)) #
                concat (map (\<lambda>r. [T_comma, T_scalar (JStr (js_string r))]) rs')) @ [T_rbrack])"
proof -
  have l: "lex_char L_top CHR ''['' = Some ([T_lbrack], L_top)"
    by (simp add: lex_char_def lex_top_def is_ws_def)
  have r: "lex_char L_top CHR '']'' = Some ([T_rbrack], L_top)"
    by (simp add: lex_char_def lex_top_def is_ws_def)
  have e: "lex_end L_top = Some []"
    by (simp add: lex_end_def)
  show ?thesis
  proof (cases rs)
    case Nil
    then show ?thesis by (simp add: JSON_stringify_def l r e)
  next
    case (Cons a as)
    then show ?thesis
      using lex_comma_strings [of as "'']''"]
      by (simp add: JSON_stringify_def l r e join_comma_Cons lex_quote_string option.map_comp comp_def)
  qed
qed

lemma parse_run_elements:
  "parse_run S_next (F_arr acc # st) (concat (map (\<lambda>r. [T_comma, T_scalar (JStr (js_string r))]) rs) @ ts)
   = parse_run S_next (F_arr (rev (map (\<lambda>r. JStr (js_string r)) rs) @ acc) # st) ts"
  by (induction rs arbitrary: acc) (simp_all add: parse_step_def begin_value_def complete_def)

lemma parse_stringify:
  "JSON_parse (JSON_stringify rs) = Some (JArr (map (\<lambda>r. JStr (js_string r)) rs))"
proof (cases rs)
  case Nil
  then show ?thesis
    by (simp add: JSON_parse_def lex_stringify parse_step_def begin_value_def complete_def)
next
  case (Cons a as)
  then show ?thesis
    using parse_run_elements [of "[JStr (js_string a)]" "[]" as "[T_rbrack]"]
    by (simp add: JSON_parse_def lex_stringify parse_step_def begin_value_def complete_def)
qed

lemma stringify_nonempty: "JSON_stringify rs \<noteq> []"
  by (simp add: JSON_stringify_def)

lemma parse_word: "JSON_parse ''admin'' = None"
  by (simp add: JSON_parse_def lex_char_def lex_top_def is_ws_def is_digit_def dquote_def)

lemma parse_empty_array: "JSON_parse ''[]'' = Some (JArr [])"
  by (simp add: JSON_parse_def lex_char_def lex_top_def lex_end_def is_ws_def is_digit_def dquote_def
        parse_step_def begin_value_def complete_def)

section \<open>Properties of the internal re-authenticator\<close>

lemma identity_from_headers_None:
  "identity_from_headers h = None \<longleftrightarrow>
     \<not> truthy (h ''x-user-id'') \<or>
     (truthy (h ''x-user-roles'') \<and> JSON_parse (the (h ''x-user-roles'')) = None)"
  by (auto simp: identity_from_headers_def split: option.splits)


text \<open>
  Claim C3 as stated fails: a non-empty \<^verbatim>\<open>x-user-id\<close> header does not always win. When the
  \<^verbatim>\<open>x-user-roles\<close> header is not JSON (here the bare word \<^verbatim>\<open>admin\<close>), \<^verbatim>\<open>JSON.parse\<close> throws,
  the headers are dropped, and with no token present the caller becomes the placeholder user.
\<close>

theorem headers_with_bad_roles_counterexample:
  "service_authenticateToken sample_verify
     \<lparr>path = ''/api/v1/orders/projects'',
      headers = map_of [(''x-user-id'', ''u1''), (''x-user-roles'', ''admin'')],
      user = None\<rparr>
   = Next \<lparr>path = ''/api/v1/orders/projects'',
      headers = map_of [(''x-user-id'', ''u1''), (''x-user-roles'', ''admin'')],
      user = Some default_user\<rparr>"
  by (simp add: service_authenticateToken_def identity_from_headers_def identity_from_token_def
      truthy_def parse_word token_of_def)

text \<open>
  Claim C3 (amended): the internal service tries three strategies in order and always lets
  the request proceed. (1) If the \<^verbatim>\<open>x-user-id\<close> header is non-empty and the \<^verbatim>\<open>x-user-roles\<close>
  header is missing, empty or parses as JSON, the identity is built from the headers, whatever
  the \<^verbatim>\<open>Authorization\<close> header holds. (2) Otherwise, so also when \<^verbatim>\<open>x-user-roles\<close> does not
  parse, a bearer token that verifies gives the identity. (3) Otherwise the fixed placeholder
  user is assigned.
\<close>

theorem reauthentication_order:
  "(truthy (headers req ''x-user-id'') \<and> \<not> truthy (headers req ''x-user-roles'') \<longrightarrow>
      service_authenticateToken verify req =
        Next (req\<lparr>user := Some
          \<lparr>id' = the (headers req ''x-user-id''),
           email = (if truthy (headers req ''x-user-email'')
                    then the (headers req ''x-user-email'') else []),
           roles = engineer\<rparr>\<rparr>)) \<and>
   (truthy (headers req ''x-user-id'') \<and> truthy (headers req ''x-user-roles'') \<and>
    JSON_parse (the (headers req ''x-user-roles'')) = Some r \<longrightarrow>
      service_authenticateToken verify req =
        Next (req\<lparr>user := Some
          \<lparr>id' = the (headers req ''x-user-id''),
           email = (if truthy (headers req ''x-user-email'')
                    then the (headers req ''x-user-email'') else []),
           roles = r\<rparr>\<rparr>)) \<and>
   (identity_from_headers (headers req) = None \<and> truthy (token_of (headers req)) \<and>
    verify (the (token_of (headers req))) = Inr d \<longrightarrow>
      service_authenticateToken verify req =
        Next (req\<lparr>user := Some
          \<lparr>id' = id' d, email = email d,
           roles = (case roles d of
                      None \<Rightarrow> engineer
                    | Some rs \<Rightarrow> JArr (map (\<lambda>r. JStr (js_string r)) rs))\<rparr>\<rparr>)) \<and>
   (identity_from_headers (headers req) = None \<and>
    (\<not> truthy (token_of (headers req)) \<or> (\<exists>e. verify (the (token_of (headers req))) = Inl e)) \<longrightarrow>
      service_authenticateToken verify req = Next (req\<lparr>user := Some default_user\<rparr>)) \<and>
   (identity_from_headers (headers req) = None \<longleftrightarrow>
      \<not> truthy (headers req ''x-user-id'') \<or>
      (truthy (headers req ''x-user-roles'') \<and> JSON_parse (the (headers req ''x-user-roles'')) = None))"
proof (intro conjI)
  show "identity_from_headers (headers req) = None \<longleftrightarrow>
      \<not> truthy (headers req ''x-user-id'') \<or>
      (truthy (headers req ''x-user-roles'') \<and> JSON_parse (the (headers req ''x-user-roles'')) = None)"
    by (rule identity_from_headers_None)
qed (auto simp: service_authenticateToken_def identity_from_headers_def identity_from_token_def
      Let_def split: option.splits)

text \<open>
  The amended claim C3 at four requests: headers next to a forged token (the headers win);
  headers whose roles are not JSON next to a good token (the token is used); a good token
  alone; an expired token alone (the placeholder user).
\<close>

theorem reauthentication_order_witness:
  "service_authenticateToken sample_verify
     \<lparr>path = ''/p'',
      headers = map_of [(''x-user-id'', ''u7''), (''x-user-email'', ''x@y.org''),
                        (''x-user-roles'', ''[]''), (''authorization'', ''Bearer forged'')],
      user = None\<rparr>
   = Next \<lparr>path = ''/p'',
      headers = map_of [(''x-user-id'', ''u7''), (''x-user-email'', ''x@y.org''),
                        (''x-user-roles'', ''[]''), (''authorization'', ''Bearer forged'')],
      user = Some \<lparr>id' = ''u7'', email = ''x@y.org'', roles = JArr []\<rparr>\<rparr> \<and>
   service_authenticateToken sample_verify
     \<lparr>path = ''/p'',
      headers = map_of [(''x-user-id'', ''u7''), (''x-user-roles'', ''admin''),
                        (''authorization'', ''Bearer good'')],
      user = None\<rparr>
   = Next \<lparr>path = ''/p'',
      headers = map_of [(''x-user-id'', ''u7''), (''x-user-roles'', ''admin''),
                        (''authorization'', ''Bearer good'')],
      user = Some \<lparr>id' = ''u1'', email = ''a@b.com'',
                   roles = JArr [JStr (js_string ''manager'')]\<rparr>\<rparr> \<and>
   service_authenticateToken sample_verify
     \<lparr>path = ''/p'', headers = map_of [(''authorization'', ''Bearer expired'')], user = None\<rparr>
   = Next \<lparr>path = ''/p'', headers = map_of [(''authorization'', ''Bearer expired'')],
           user = Some default_user\<rparr> \<and>
   service_authenticateToken sample_verify
     \<lparr>path = ''/p'', headers = map_of [(''x-user-id'', ''u7'')], user = None\<rparr>
   = Next \<lparr>path = ''/p'', headers = map_of [(''x-user-id'', ''u7'')],
           user = Some \<lparr>id' = ''u7'', email = [], roles = engineer\<rparr>\<rparr>"
proof -
  let ?h1 = "map_of [(''x-user-id'', ''u7''), (''x-user-email'', ''x@y.org''),
                     (''x-user-roles'', ''[]''), (''authorization'', ''Bearer forged'')]"
  let ?h2 = "map_of [(''x-user-id'', ''u7''), (''x-user-roles'', ''admin''),
                     (''authorization'', ''Bearer good'')]"
  let ?h3 = "map_of [(''authorization'', ''Bearer expired'')]"
  let ?h4 = "map_of [(''x-user-id'', ''u7'')]"
  let ?r1 = "\<lparr>path = ''/p'', headers = ?h1, user = None :: identity option\<rparr>"
  let ?r2 = "\<lparr>path = ''/p'', headers = ?h2, user = None :: identity option\<rparr>"
  let ?r3 = "\<lparr>path = ''/p'', headers = ?h3, user = None :: identity option\<rparr>"
  let ?r4 = "\<lparr>path = ''/p'', headers = ?h4, user = None :: identity option\<rparr>"
  have t2: "token_of ?h2 = Some ''good''" and t3: "token_of ?h3 = Some ''expired''"
    by (simp_all add: token_of_def truthy_def js_index_def)
  have n2: "identity_from_headers ?h2 = None" and n3: "identity_from_headers ?h3 = None"
    by (simp_all add: identity_from_headers_def truthy_def parse_word)
  have c1: "service_authenticateToken sample_verify ?r1
            = Next (?r1\<lparr>user := Some \<lparr>id' = ''u7'', email = ''x@y.org'', roles = JArr []\<rparr>\<rparr>)"
    using reauthentication_order [of ?r1 sample_verify "JArr []"]
    by (simp add: truthy_def parse_empty_array)
  have c2: "service_authenticateToken sample_verify ?r2
            = Next (?r2\<lparr>user := Some \<lparr>id' = ''u1'', email = ''a@b.com'',
                                         roles = JArr [JStr (js_string ''manager'')]\<rparr>\<rparr>)"
    using reauthentication_order
      [of ?r2 sample_verify _ "\<lparr>id' = ''u1'', email = ''a@b.com'', roles = Some [''manager'']\<rparr>"]
      t2 n2
    by (simp add: truthy_def sample_verify_def)
  have c3: "service_authenticateToken sample_verify ?r3 = Next (?r3\<lparr>user := Some default_user\<rparr>)"
    using reauthentication_order [of ?r3 sample_verify] t3 n3
    by (simp add: truthy_def sample_verify_def)
  have c4: "service_authenticateToken sample_verify ?r4
            = Next (?r4\<lparr>user := Some \<lparr>id' = ''u7'', email = [], roles = engineer\<rparr>\<rparr>)"
    using reauthentication_order [of ?r4 sample_verify]
    by (simp add: truthy_def)
  from c1 c2 c3 c4 show ?thesis by simp
qed

section \<open>Properties of the roles of an authenticated identity\<close>

lemma gateway_success:
  assumes "\<not> public_route (path req)" and "truthy (token_of (headers req))"
    and "verify (the (token_of (headers req))) = Inr u"
  shows "gateway_authenticateToken verify req
         = Next (req\<lparr>user := Some u, headers := propagate u (headers req)\<rparr>)"
  using assms by (simp add: gateway_authenticateToken_def Let_def)

text \<open>The roles that each strategy of the internal service assigns.\<close>

lemma same_request_iff: "(req\<lparr>user := x\<rparr> = req\<lparr>user := y\<rparr>) = (x = y)"
  by (cases req) simp

lemma roles_from_headers:
  assumes "truthy (headers req ''x-user-id'')"
  shows "\<not> truthy (headers req ''x-user-roles'') \<Longrightarrow>
           \<exists>u. service_authenticateToken verify req = Next (req\<lparr>user := Some u\<rparr>) \<and>
               roles u = JArr [JStr (js_string ''engineer'')]"
    and "truthy (headers req ''x-user-roles'') \<Longrightarrow>
         JSON_parse (the (headers req ''x-user-roles'')) = Some r \<Longrightarrow>
           \<exists>u. service_authenticateToken verify req = Next (req\<lparr>user := Some u\<rparr>) \<and> roles u = r"
  using assms
  by (simp_all add: service_authenticateToken_def identity_from_headers_def engineer_def
      same_request_iff)

lemma roles_from_token:
  assumes "identity_from_headers (headers req) = None"
  shows "truthy (token_of (headers req)) \<Longrightarrow> verify (the (token_of (headers req))) = Inr d \<Longrightarrow>
         roles d = Some rs \<Longrightarrow>
           \<exists>u. service_authenticateToken verify req = Next (req\<lparr>user := Some u\<rparr>) \<and>
               roles u = JArr (map (\<lambda>r. JStr (js_string r)) rs)"
    and "truthy (token_of (headers req)) \<Longrightarrow> verify (the (token_of (headers req))) = Inr d \<Longrightarrow>
         roles d = None \<Longrightarrow>
           \<exists>u. service_authenticateToken verify req = Next (req\<lparr>user := Some u\<rparr>) \<and>
               roles u = JArr [JStr (js_string ''engineer'')]"
    and "\<not> truthy (token_of (headers req)) \<or> (\<exists>e. verify (the (token_of (headers req))) = Inl e) \<Longrightarrow>
           \<exists>u. service_authenticateToken verify req = Next (req\<lparr>user := Some u\<rparr>) \<and>
               roles u = JArr [JStr (js_string ''engineer'')]"
  using assms
  by (auto simp: service_authenticateToken_def identity_from_token_def default_user_def Let_def
      engineer_def same_request_iff)

text \<open>
  Claim C8 as stated fails: the identity can have an empty role set. A request to the
  internal service with the headers \<^verbatim>\<open>x-user-id: u1\<close> and \<^verbatim>\<open>x-user-roles: []\<close> is
  authenticated with no role at all.
\<close>

theorem empty_role_set_counterexample:
  "service_authenticateToken sample_verify
     \<lparr>path = ''/api/v1/users'',
      headers = map_of [(''x-user-id'', ''u1''), (''x-user-roles'', ''[]'')],
      user = None\<rparr>
   = Next \<lparr>path = ''/api/v1/users'',
      headers = map_of [(''x-user-id'', ''u1''), (''x-user-roles'', ''[]'')],
      user = Some \<lparr>id' = ''u1'', email = [], roles = JArr []\<rparr>\<rparr>"
  by (simp add: service_authenticateToken_def identity_from_headers_def
      truthy_def parse_empty_array)

text \<open>
  Claim C8 (amended): the internal service always assigns an identity, and its roles are
  decided by the strategy that applies. On the headers path (a non-empty \<^verbatim>\<open>x-user-id\<close>):
  the single baseline role \<^verbatim>\<open>['engineer']\<close> when \<^verbatim>\<open>x-user-roles\<close> is missing or empty, and
  otherwise the value that \<^verbatim>\<open>x-user-roles\<close> parses to, taken as it is (an empty list stays
  empty). When the headers give no identity (no \<^verbatim>\<open>x-user-id\<close>, or an \<^verbatim>\<open>x-user-roles\<close> that
  does not parse) and a bearer token verifies: the role list of the payload, taken as it
  is, and the baseline role when the payload has none. When neither headers nor token give
  an identity: the baseline role of the placeholder user. The edge stores the verified
  payload unchanged, with whatever roles it has, and applies no default.
\<close>

theorem roles_after_authentication:
  "(truthy (headers req ''x-user-id'') \<and> \<not> truthy (headers req ''x-user-roles'') \<longrightarrow>
      (\<exists>u. service_authenticateToken verify req = Next (req\<lparr>user := Some u\<rparr>) \<and>
           roles u = JArr [JStr (js_string ''engineer'')])) \<and>
   (truthy (headers req ''x-user-id'') \<and> truthy (headers req ''x-user-roles'') \<and>
    JSON_parse (the (headers req ''x-user-roles'')) = Some r \<longrightarrow>
      (\<exists>u. service_authenticateToken verify req = Next (req\<lparr>user := Some u\<rparr>) \<and>
           roles u = r)) \<and>
   ((\<not> truthy (headers req ''x-user-id'') \<or>
     (truthy (headers req ''x-user-roles'') \<and>
      JSON_parse (the (headers req ''x-user-roles'')) = None)) \<and>
    truthy (token_of (headers req)) \<and> verify (the (token_of (headers req))) = Inr d \<and>
    roles d = Some rs \<longrightarrow>
      (\<exists>u. service_authenticateToken verify req = Next (req\<lparr>user := Some u\<rparr>) \<and>
           roles u = JArr (map (\<lambda>r. JStr (js_string r)) rs))) \<and>
   ((\<not> truthy (headers req ''x-user-id'') \<or>
     (truthy (headers req ''x-user-roles'') \<and>
      JSON_parse (the (headers req ''x-user-roles'')) = None)) \<and>
    truthy (token_of (headers req)) \<and> verify (the (token_of (headers req))) = Inr d \<and>
    roles d = None \<longrightarrow>
      (\<exists>u. service_authenticateToken verify req = Next (req\<lparr>user := Some u\<rparr>) \<and>
           roles u = JArr [JStr (js_string ''engineer'')])) \<and>
   ((\<not> truthy (headers req ''x-user-id'') \<or>
     (truthy (headers req ''x-user-roles'') \<and>
      JSON_parse (the (headers req ''x-user-roles'')) = None)) \<and>
    (\<not> truthy (token_of (headers req)) \<or>
     (\<exists>e. verify (the (token_of (headers req))) = Inl e)) \<longrightarrow>
      (\<exists>u. service_authenticateToken verify req = Next (req\<lparr>user := Some u\<rparr>) \<and>
           roles u = JArr [JStr (js_string ''engineer'')])) \<and>
   (\<not> public_route (path g) \<and> truthy (token_of (headers g)) \<and>
    verify (the (token_of (headers g))) = Inr p \<longrightarrow>
      gateway_authenticateToken verify g
        = Next (g\<lparr>user := Some p, headers := propagate p (headers g)\<rparr>))"
proof -
  have n: "identity_from_headers (headers req) = None"
    if "\<not> truthy (headers req ''x-user-id'') \<or>
        (truthy (headers req ''x-user-roles'') \<and>
         JSON_parse (the (headers req ''x-user-roles'')) = None)"
    using that by (simp add: identity_from_headers_None)
  show ?thesis
    using roles_from_headers [of req] roles_from_token [OF n] gateway_success [of g verify p]
    by blast
qed

text \<open>
  The amended claim C8 at six requests. To the internal service: one that brings only
  \<^verbatim>\<open>x-user-id\<close> (baseline role); one that brings \<^verbatim>\<open>x-user-roles: ["admin"]\<close> (those roles);
  one with a good token alone (the roles of its payload); one with a token whose payload
  has no roles (baseline role); one with nothing (baseline role). At the edge: a request
  for the path \<^verbatim>\<open>*\<close> with the token without roles (the payload is stored as it is).
\<close>

theorem roles_after_authentication_witness:
  "(\<exists>u. service_authenticateToken sample_verify
          \<lparr>path = ''/p'', headers = map_of [(''x-user-id'', ''u7'')], user = None\<rparr>
        = Next \<lparr>path = ''/p'', headers = map_of [(''x-user-id'', ''u7'')], user = Some u\<rparr> \<and>
        roles u = JArr [JStr (js_string ''engineer'')]) \<and>
   (\<exists>u. service_authenticateToken sample_verify admin_request
        = Next (admin_request\<lparr>user := Some u\<rparr>) \<and>
        roles u = JArr [JStr (js_string ''admin'')]) \<and>
   (\<exists>u. service_authenticateToken sample_verify
          \<lparr>path = ''/p'', headers = map_of [(''authorization'', ''Bearer good'')], user = None\<rparr>
        = Next \<lparr>path = ''/p'', headers = map_of [(''authorization'', ''Bearer good'')],
                user = Some u\<rparr> \<and>
        roles u = JArr [JStr (js_string ''manager'')]) \<and>
   (\<exists>u. service_authenticateToken sample_verify
          \<lparr>path = ''/p'', headers = map_of [(''authorization'', ''Bearer bare'')], user = None\<rparr>
        = Next \<lparr>path = ''/p'', headers = map_of [(''authorization'', ''Bearer bare'')],
                user = Some u\<rparr> \<and>
        roles u = JArr [JStr (js_string ''engineer'')]) \<and>
   (\<exists>u. service_authenticateToken sample_verify
          \<lparr>path = ''/p'', headers = map_of [], user = None\<rparr>
        = Next \<lparr>path = ''/p'', headers = map_of [], user = Some u\<rparr> \<and>
        roles u = JArr [JStr (js_string ''engineer'')]) \<and>
   gateway_authenticateToken sample_verify
     \<lparr>path = ''*'', headers = map_of [(''authorization'', ''Bearer bare'')], user = None\<rparr>
   = Next \<lparr>path = ''*'',
      headers = propagate \<lparr>id' = ''u2'', email = ''c@d.com'', roles = None\<rparr>
                  (map_of [(''authorization'', ''Bearer bare'')]),
      user = Some \<lparr>id' = ''u2'', email = ''c@d.com'', roles = None\<rparr>\<rparr>"
proof -
  let ?good = "map_of [(''authorization'', ''Bearer good'')]"
  let ?bare = "map_of [(''authorization'', ''Bearer bare'')]"
  let ?r1 = "\<lparr>path = ''/p'', headers = map_of [(''x-user-id'', ''u7'')],
              user = None :: identity option\<rparr>"
  let ?r3 = "\<lparr>path = ''/p'', headers = ?good, user = None :: identity option\<rparr>"
  let ?r4 = "\<lparr>path = ''/p'', headers = ?bare, user = None :: identity option\<rparr>"
  let ?r5 = "\<lparr>path = ''/p'', headers = map_of [], user = None :: identity option\<rparr>"
  let ?g = "\<lparr>path = ''*'', headers = ?bare, user = None :: token_payload option\<rparr>"
  let ?pg = "\<lparr>id' = ''u1'', email = ''a@b.com'', roles = Some [''manager'']\<rparr>"
  let ?pb = "\<lparr>id' = ''u2'', email = ''c@d.com'', roles = None :: string list option\<rparr>"
  have tg: "token_of ?good = Some ''good''" and tb: "token_of ?bare = Some ''bare''"
    and t0: "token_of (map_of []) = None"
    by (simp_all add: token_of_def truthy_def js_index_def)
  have c1: "\<exists>u. service_authenticateToken sample_verify ?r1 = Next (?r1\<lparr>user := Some u\<rparr>) \<and>
                roles u = JArr [JStr (js_string ''engineer'')]"
    using roles_after_authentication [where req = ?r1 and verify = sample_verify]
    by (simp add: truthy_def)
  have c2: "\<exists>u. service_authenticateToken sample_verify admin_request
                 = Next (admin_request\<lparr>user := Some u\<rparr>) \<and>
                roles u = JArr [JStr (js_string ''admin'')]"
    using roles_after_authentication
      [where req = admin_request and verify = sample_verify
         and r = "JArr [JStr (js_string ''admin'')]"]
      stringify_nonempty [of "[''admin'']"] parse_stringify [of "[''admin'']"]
    by (simp add: admin_request_def truthy_def)
  have c3: "\<exists>u. service_authenticateToken sample_verify ?r3 = Next (?r3\<lparr>user := Some u\<rparr>) \<and>
                roles u = JArr [JStr (js_string ''manager'')]"
    using roles_after_authentication
      [where req = ?r3 and verify = sample_verify and d = ?pg and rs = "[''manager'']"] tg
    by (simp add: truthy_def sample_verify_def)
  have c4: "\<exists>u. service_authenticateToken sample_verify ?r4 = Next (?r4\<lparr>user := Some u\<rparr>) \<and>
                roles u = JArr [JStr (js_string ''engineer'')]"
    using roles_after_authentication [where req = ?r4 and verify = sample_verify and d = ?pb] tb
    by (simp add: truthy_def sample_verify_def)
  have c5: "\<exists>u. service_authenticateToken sample_verify ?r5 = Next (?r5\<lparr>user := Some u\<rparr>) \<and>
                roles u = JArr [JStr (js_string ''engineer'')]"
    using roles_after_authentication [where req = ?r5 and verify = sample_verify] t0
    by (simp add: truthy_def)
  have c6: "gateway_authenticateToken sample_verify ?g
            = Next (?g\<lparr>user := Some ?pb, headers := propagate ?pb (headers ?g)\<rparr>)"
    using roles_after_authentication [where verify = sample_verify and g = ?g and p = ?pb]
      tb not_public_star
    by (simp add: truthy_def sample_verify_def)
  from c1 c2 c3 c4 c5 c6 show ?thesis by simp
qed

section \<open>Properties of the hop to an internal service\<close>




text \<open>A request on which the edge has stored a payload without roles cannot be sent on.\<close>

lemma payload_without_roles_not_sent:
  "user req = Some u \<Longrightarrow> roles u = None \<Longrightarrow> proxy_forward lib opts req = Inl TypeError"
  by (simp add: proxy_forward_def assigned_undefined_def Let_def)








section \<open>Properties of identity propagation\<close>













section \<open>Properties of the users service\<close>

lemma without_password_fields [simp]:
  "user_id (without_password u) = user_id u"
  "user_roles (without_password u) = user_roles u"
  by (simp_all add: without_password_def public_user.truncate_def)

lemma same_but_hashes_map:
  "same_but_hashes us vs \<Longrightarrow> map without_password us = map without_password vs"
  unfolding same_but_hashes_def
  by (induction us vs rule: list_all2_induct)
    (simp_all add: without_password_def public_user.truncate_def)

lemma find_map_public: "find P (map f xs) = map_option f (find (\<lambda>x. P (f x)) xs)"
  by (induction xs) simp_all

text \<open>Both handlers read the store only through the users without their password hashes.\<close>

lemma profile_handler_public:
  "profile_handler users req =
     (case user req of
        None \<Rightarrow> Uncaught TypeError
      | Some caller \<Rightarrow>
          (case find (\<lambda>p. user_id p = id' caller) (map without_password users) of
             None \<Rightarrow> Failure \<lparr>status = 404, code = ''USER_NOT_FOUND'', message = User_not_found_msg\<rparr>
           | Some p \<Rightarrow> Success p))"
  by (simp add: profile_handler_def find_map_public split: option.splits)

lemma js_slice_map: "map f (js_slice xs a b) = js_slice (map f xs) a b"
  by (simp add: js_slice_def Let_def take_map drop_map)

lemma list_handler_public:
  "list_handler users q =
     (let pageNum = (case page q of None \<Rightarrow> Finite 1 | Some s \<Rightarrow> parseInt s);
          limitNum = (case limit q of None \<Rightarrow> Finite 10 | Some s \<Rightarrow> parseInt s);
          filtered = (if truthy (role q)
                      then filter (\<lambda>p. the (role q) \<in> set (user_roles p)) (map without_password users)
                      else map without_password users)
      in Success
           (js_slice filtered (js_mul (js_sub pageNum (Finite 1)) limitNum) (js_mul pageNum limitNum),
            \<lparr>pageNum = json_number pageNum, limitNum = json_number limitNum,
             total' = length filtered,
             totalPages = ceil_div (length filtered) limitNum\<rparr>))"
  by (simp add: list_handler_def Let_def js_slice_map filter_map comp_def)

text \<open>
  Claim C10: the profile route and the user-list route answer with users stripped of their
  password hash, and two stores that hold the same users and differ only in password hashes
  get the same answer from both routes, for every request and query.
\<close>

theorem password_hash_never_shown:
  assumes "same_but_hashes us vs"
  shows "get_profile verify us req = get_profile verify vs req \<and>
         list_users verify us q req = list_users verify vs q req"
proof -
  from assms have m: "map without_password us = map without_password vs"
    by (rule same_but_hashes_map)
  have p: "profile_handler us r = profile_handler vs r" for r
    unfolding profile_handler_public m by (rule refl)
  have l: "list_handler us q = list_handler vs q"
    unfolding list_handler_public m by (rule refl)
  show ?thesis
    unfolding get_profile_def list_users_def p l by simp
qed

lemma admin_identity:
  "service_authenticateToken verify admin_request
   = Next (admin_request\<lparr>user := Some \<lparr>id' = ''u1'', email = ''a@b.com'',
                                          roles = JArr [JStr (js_string ''admin'')]\<rparr>\<rparr>)"
  using stringify_nonempty [of "[''admin'']"]
  by (simp add: service_authenticateToken_def identity_from_headers_def admin_request_def
      truthy_def parse_stringify)

lemma admin_authorized:
  "authorizeRoles [''admin'']
     (admin_request\<lparr>user := Some \<lparr>id' = ''u1'', email = ''a@b.com'',
                                  roles = JArr [JStr (js_string ''admin'')]\<rparr>\<rparr>)
   = Next (admin_request\<lparr>user := Some \<lparr>id' = ''u1'', email = ''a@b.com'',
                                          roles = JArr [JStr (js_string ''admin'')]\<rparr>\<rparr>)"
  by (simp add: authorizeRoles_def json_truthy_def roles_includes_def)

text \<open>
  Claim C10 at a store of two users and the same store with other password hashes: the
  administrator's profile and the first page of the user list come out the same, without any
  hash.
\<close>

theorem password_hash_never_shown_witness:
  "same_but_hashes sample_users sample_users_rehashed \<and>
   sample_users \<noteq> sample_users_rehashed \<and>
   get_profile sample_verify sample_users_rehashed admin_request
   = Success \<lparr>user_id = ''u1'', user_email = ''a@b.com'', user_name = ''Ann'',
              user_roles = [''admin''], createdAt = ''2024-01-01T00:00:00.000Z'',
              updatedAt = ''2024-01-01T00:00:00.000Z''\<rparr> \<and>
   list_users sample_verify sample_users_rehashed \<lparr>page = None, limit = None, role = None\<rparr>
     admin_request
   = Success
       ([\<lparr>user_id = ''u1'', user_email = ''a@b.com'', user_name = ''Ann'',
          user_roles = [''admin''], createdAt = ''2024-01-01T00:00:00.000Z'',
          updatedAt = ''2024-01-01T00:00:00.000Z''\<rparr>,
         \<lparr>user_id = ''u2'', user_email = ''c@d.com'', user_name = ''Bob'',
          user_roles = [''engineer''], createdAt = ''2024-02-01T00:00:00.000Z'',
          updatedAt = ''2024-02-01T00:00:00.000Z''\<rparr>],
        \<lparr>pageNum = Some 1, limitNum = Some 10, total' = 2, totalPages = Some 1\<rparr>)"
proof -
  let ?q = "\<lparr>page = None, limit = None, role = None\<rparr>"
  have h: "same_but_hashes sample_users sample_users_rehashed"
    by (simp add: same_but_hashes_def sample_users_def sample_users_rehashed_def)
  have ne: "sample_users \<noteq> sample_users_rehashed"
    by (simp add: sample_users_def sample_users_rehashed_def)
  have a: "get_profile sample_verify sample_users admin_request
           = Success \<lparr>user_id = ''u1'', user_email = ''a@b.com'', user_name = ''Ann'',
              user_roles = [''admin''], createdAt = ''2024-01-01T00:00:00.000Z'',
              updatedAt = ''2024-01-01T00:00:00.000Z''\<rparr>"
    by (simp add: get_profile_def admin_identity profile_handler_def sample_users_def
        without_password_def public_user.truncate_def)
  have b: "list_users sample_verify sample_users ?q admin_request
           = Success
       ([\<lparr>user_id = ''u1'', user_email = ''a@b.com'', user_name = ''Ann'',
          user_roles = [''admin''], createdAt = ''2024-01-01T00:00:00.000Z'',
          updatedAt = ''2024-01-01T00:00:00.000Z''\<rparr>,
         \<lparr>user_id = ''u2'', user_email = ''c@d.com'', user_name = ''Bob'',
          user_roles = [''engineer''], createdAt = ''2024-02-01T00:00:00.000Z'',
          updatedAt = ''2024-02-01T00:00:00.000Z''\<rparr>],
        \<lparr>pageNum = Some 1, limitNum = Some 10, total' = 2, totalPages = Some 1\<rparr>)"
    by (simp add: list_users_def admin_identity admin_authorized list_handler_def sample_users_def
        truthy_def js_sub_def js_mul_def js_slice_def slice_index_def ceil_div_def json_number_def
        to_double_def Let_def
        without_password_def public_user.truncate_def)
  from password_hash_never_shown [OF h, of sample_verify admin_request ?q] a b h ne
  show ?thesis by simp
qed

end
